theory Spec2Isabelle
  imports Main "HOL-Library.Word"
begin

section \<open>Data model of the lexer (Lexer.cpp and the headers it uses)\<close>

text \<open>Diagnostic codes added through \<^verbatim>\<open>addError\<close>.\<close>

datatype DiagCode =
    UnicodeBOM | UTF8Char | NonPrintableChar | EmbeddedNull
  | UnterminatedStringLiteral | NewlineInStringLiteral | OctalEscapeCodeTooBig
  | InvalidHexEscapeCode | UnknownEscapeCode | EscapedWhitespace
  | MisplacedDirectiveChar | MissingFractionalDigits | MissingExponentDigits
  | RealExponentTooLarge | SignedLiteralTooLarge | IntegerSizeZero
  | IntegerSizeTooLarge | MissingVectorBase | MissingVectorDigits
  | InvalidUnsizedLiteral | UnterminatedBlockComment | NestedBlockComment
  | SplitBlockCommentInDirective

text \<open>\<^verbatim>\<open>LexingMode\<close>: Normal, Directive, Include (suffixed, the token kinds reuse the names).\<close>

datatype LexingMode = NormalMode | DirectiveMode | IncludeMode

text \<open>
  \<^verbatim>\<open>TriviaKind\<close>: the four kinds the trivia scanner adds, and the directive kinds that
  \<^verbatim>\<open>getDirectiveKind\<close> resolves. \<^verbatim>\<open>lexDirective\<close> tells apart only MacroUsage, IncludeDirective
  and every other kind; \<open>DefineDirective\<close> and \<open>OtherDirective\<close> stand for the others.
\<close>

datatype TriviaKind =
    Whitespace | EndOfLine | LineComment | BlockComment
  | MacroUsageTrivia | IncludeDirective | DefineDirective | OtherDirective

datatype IdentifierType = NormalId | EscapedId | SystemId | UnknownId

text \<open>\<^verbatim>\<open>TokenKind\<close>: every kind \<^verbatim>\<open>lexToken\<close> returns, and EndOfDirective.\<close>

datatype (plugins only: ) TokenKind =
    Unknown | EndOfFile | EndOfDirective
  | Identifier | SystemIdentifier | StringLiteral | IntegerLiteral | RealLiteral
  | Directive | MacroUsage | MacroQuote | MacroPaste | MacroEscapedQuote
  | Exclamation | ExclamationEquals | ExclamationDoubleEquals | ExclamationEqualsQuestion
  | Hash | DoubleHash | HashMinusHash | HashEqualsHash
  | Dollar | Percent | PercentEqual
  | And | DoubleAnd | TripleAnd | AndEqual
  | ApostropheOpenBrace
  | OpenParenthesis | OpenParenthesisStar | CloseParenthesis
  | Star | DoubleStar | StarEqual | StarArrow | StarCloseParenthesis | StarDoubleColonStar
  | Plus | DoublePlus | PlusEqual | PlusColon
  | Comma
  | Minus | DoubleMinus | MinusEqual | MinusColon | MinusArrow | MinusDoubleArrow
  | Dot | DotStar
  | Slash | SlashEqual
  | Colon | ColonEquals | ColonSlash | DoubleColon
  | Semicolon
  | LessThan | LessThanEquals | LessThanMinusArrow
  | LeftShift | LeftShiftEqual | TripleLeftShift | TripleLeftShiftEqual
  | Equals | DoubleEquals | TripleEquals | DoubleEqualsQuestion | EqualsArrow
  | GreaterThan | GreaterThanEquals
  | RightShift | RightShiftEqual | TripleRightShift | TripleRightShiftEqual
  | Question
  | At | DoubleAt
  | OpenBracket | CloseBracket
  | Xor | XorTilde | XorEqual
  | OpenBrace | CloseBrace
  | Or | DoubleOr | OrMinusArrow | OrEqualsArrow | OrEqual
  | Tilde | TildeAnd | TildeOr | TildeXor

text \<open>
  \<^verbatim>\<open>logic_t\<close>: a four-valued digit, either a numeric digit value or one of x and z.
\<close>

datatype logic_t = Digit nat | logic_x | logic_z

text \<open>
  Modelled from the spec: the vector builder (\<^verbatim>\<open>vectorBuilder.start\<close>, \<^verbatim>\<open>startUnsized\<close>,
  \<^verbatim>\<open>addDigit\<close>, \<^verbatim>\<open>toVector\<close>) is not part of Lexer.cpp. The spec describes it as accumulating
  four-valued digits into a sized or unsized logic vector whose payload is the size, the
  signedness and the per-digit array; the record below is that payload under construction.
\<close>

record LogicVector =
  vecSized :: bool
  vecSize :: "32 word"
  vecSigned :: bool
  vecDigits :: "logic_t list"

definition vb_start :: "32 word \<Rightarrow> bool \<Rightarrow> LogicVector" where
  "vb_start size32 isSigned =
     \<lparr>vecSized = True, vecSize = size32, vecSigned = isSigned, vecDigits = []\<rparr>"

definition vb_startUnsized :: LogicVector where
  "vb_startUnsized = \<lparr>vecSized = False, vecSize = 0, vecSigned = False, vecDigits = []\<rparr>"

definition vb_addDigit :: "LogicVector \<Rightarrow> logic_t \<Rightarrow> LogicVector" where
  "vb_addDigit vb d = vb\<lparr>vecDigits := vecDigits vb @ [d]\<rparr>"

definition vb_toVector :: "LogicVector \<Rightarrow> LogicVector" where
  "vb_toVector vb = vb"

text \<open>
  IEEE-754 doubles are left abstract: the type has no operations here. The body of
  \<^verbatim>\<open>composeDouble\<close> (Lexer.cpp, lines 49-72) is therefore not translated; the function
  is a parameter of the model (see \<open>Env\<close>).
\<close>

typedecl double

datatype NumericValue =
    IntValue "32 word"
  | RealValue double
  | VectorValue LogicVector
  | LogicValue logic_t

text \<open>The payload behind \<^verbatim>\<open>extraData\<close>; \<open>NoData\<close> is the null pointer.\<close>

datatype TokenData =
    NoData
  | IdentifierInfo string IdentifierType
  | DirectiveInfo string TriviaKind
  | StringLiteralInfo string string
  | NumericLiteralInfo string NumericValue

datatype Trivia = Trivia TriviaKind string

record Token =
  kind :: TokenKind
  data :: TokenData
  trivia :: "Trivia list"

text \<open>
  The lexer object. \<open>source\<close> is the memory at \<^verbatim>\<open>source.begin()\<close>; \<open>sourceBuffer\<close>,
  \<open>sourceEnd\<close> and \<open>marker\<close> are the three pointers, as offsets from \<^verbatim>\<open>source.begin()\<close>.
  The diagnostics sink is the list of codes added so far, in order.
\<close>

record Lexer =
  source :: string
  sourceBuffer :: nat
  sourceEnd :: nat
  marker :: nat
  mode :: LexingMode
  diagnostics :: "DiagCode list"
  stringBuffer :: string
  triviaBuffer :: "Trivia list"
  vectorBuilder :: LogicVector

text \<open>
  The parameters of the model. \<open>getDirectiveKind\<close> is the directive table of SyntaxFacts,
  which is outside Lexer.cpp. \<open>composeDouble\<close> stands for the function of that name of
  Lexer.cpp (lines 49-72), from the mantissa (before its conversion to double, line 697)
  and the decimal exponent to the result of \<^verbatim>\<open>std::isfinite\<close> and the double. Its body is
  not translated: the negation of a negative exponent (line 53), the clamp to 511
  (lines 56-57), the loop over \<^verbatim>\<open>powersOf10\<close> (lines 60-63) and the multiplication or
  division (lines 65-68) are absent, and the parameter is a total function. The model
  therefore says nothing about the double that is composed, and it has a result also at
  the exponent \<open>-2^31\<close>, where in the code the negation of line 53 overflows and the loop
  of lines 60-63, which is left only once the exponent has been shifted down to 0, does
  not end. The theorems on real literals below are stated at the exponents 0, 1 and 500.
\<close>

record Env =
  getDirectiveKind :: "string \<Rightarrow> TriviaKind"
  composeDouble :: "64 word \<Rightarrow> int \<Rightarrow> bool \<times> double"

datatype error = AssertionFailed

section \<open>Characters (CharInfo.h)\<close>

abbreviation (input) NUL :: char where "NUL \<equiv> CHR 0x00"
abbreviation (input) TAB :: char where "TAB \<equiv> CHR 0x09"
abbreviation (input) LF :: char where "LF \<equiv> CHR 0x0A"
abbreviation (input) VT :: char where "VT \<equiv> CHR 0x0B"
abbreviation (input) FF :: char where "FF \<equiv> CHR 0x0C"
abbreviation (input) CR :: char where "CR \<equiv> CHR 0x0D"
abbreviation (input) BEL :: char where "BEL \<equiv> CHR 0x07"
abbreviation (input) DQUOTE :: char where "DQUOTE \<equiv> CHR 0x22"
abbreviation (input) APOSTROPHE :: char where "APOSTROPHE \<equiv> CHR 0x27"
abbreviation (input) BACKSLASH :: char where "BACKSLASH \<equiv> CHR 0x5C"
abbreviation (input) BACKQUOTE :: char where "BACKQUOTE \<equiv> CHR 0x60"

text \<open>
  Modelled from the spec: CharInfo.h is not part of the sources. The spec lists the
  predicates (ASCII, alpha, decimal, octal, hex and binary digit, logic digit x X z Z ?,
  alphanumeric, horizontal whitespace, newline, printable), digit value extractors mapping
  characters to 0-15, and a UTF-8 sequence length for non-ASCII lead bytes.
\<close>

definition code :: "char \<Rightarrow> nat" where
  "code c = of_char c"

definition isASCII :: "char \<Rightarrow> bool" where
  "isASCII c = (code c < 128)"

definition isAlpha :: "char \<Rightarrow> bool" where
  "isAlpha c = ((65 \<le> code c \<and> code c \<le> 90) \<or> (97 \<le> code c \<and> code c \<le> 122))"

definition isDecimalDigit :: "char \<Rightarrow> bool" where
  "isDecimalDigit c = (48 \<le> code c \<and> code c \<le> 57)"

definition isOctalDigit :: "char \<Rightarrow> bool" where
  "isOctalDigit c = (48 \<le> code c \<and> code c \<le> 55)"

definition isBinaryDigit :: "char \<Rightarrow> bool" where
  "isBinaryDigit c = (c = CHR ''0'' \<or> c = CHR ''1'')"

definition isHexDigit :: "char \<Rightarrow> bool" where
  "isHexDigit c = (isDecimalDigit c \<or> (65 \<le> code c \<and> code c \<le> 70)
                     \<or> (97 \<le> code c \<and> code c \<le> 102))"

definition isLogicDigit :: "char \<Rightarrow> bool" where
  "isLogicDigit c = (c = CHR ''x'' \<or> c = CHR ''X'' \<or> c = CHR ''z'' \<or> c = CHR ''Z''
                       \<or> c = CHR ''?'')"

definition isAlphaNumeric :: "char \<Rightarrow> bool" where
  "isAlphaNumeric c = (isAlpha c \<or> isDecimalDigit c)"

definition isHorizontalWhitespace :: "char \<Rightarrow> bool" where
  "isHorizontalWhitespace c = (c = CHR '' '' \<or> c = TAB \<or> c = VT \<or> c = FF)"

definition isNewline :: "char \<Rightarrow> bool" where
  "isNewline c = (c = CR \<or> c = LF)"

definition isWhitespace :: "char \<Rightarrow> bool" where
  "isWhitespace c = (isHorizontalWhitespace c \<or> isNewline c)"

definition isPrintable :: "char \<Rightarrow> bool" where
  "isPrintable c = (33 \<le> code c \<and> code c \<le> 126)"

text \<open>The callers pass digits only, where the C subtraction does not wrap.\<close>

definition getDigitValue :: "char \<Rightarrow> nat" where
  "getDigitValue c = code c - 48"

definition getHexDigitValue :: "char \<Rightarrow> nat" where
  "getHexDigitValue c =
     (if code c \<le> 57 then code c - 48
      else if code c \<le> 70 then 10 + (code c - 65)
      else 10 + (code c - 97))"

definition utf8SeqBytes :: "char \<Rightarrow> nat" where
  "utf8SeqBytes c =
     (if code c < 192 then 0
      else if code c < 224 then 1
      else if code c < 240 then 2
      else if code c < 248 then 3
      else 0)"

section \<open>Cursor (the inline members of Lexer.h)\<close>

text \<open>
  Modelled from the spec: Lexer.h is not part of the sources. The spec gives the cursor
  operations: \<^verbatim>\<open>peek(k)\<close> is the byte at offset k, or NUL beyond the end; \<^verbatim>\<open>advance(n)\<close>;
  \<^verbatim>\<open>consume(c)\<close> advances iff peek equals c and returns whether it did; \<^verbatim>\<open>mark()\<close>
  snapshots the start; \<^verbatim>\<open>lexeme()\<close> is the slice from the mark to the cursor;
  \<^verbatim>\<open>reallyAtEnd()\<close> is position \<open>\<ge>\<close> end.
\<close>

definition byteAt :: "string \<Rightarrow> nat \<Rightarrow> char" where
  "byteAt bs i = (if i < length bs then bs ! i else NUL)"

definition peek :: "Lexer \<Rightarrow> nat \<Rightarrow> char" where
  "peek s k = byteAt (source s) (sourceBuffer s + k)"

definition advance :: "Lexer \<Rightarrow> nat \<Rightarrow> Lexer" where
  "advance s n = s\<lparr>sourceBuffer := sourceBuffer s + n\<rparr>"

definition consume :: "Lexer \<Rightarrow> char \<Rightarrow> bool \<times> Lexer" where
  "consume s c = (if peek s 0 = c then (True, advance s 1) else (False, s))"

definition mark :: "Lexer \<Rightarrow> Lexer" where
  "mark s = s\<lparr>marker := sourceBuffer s\<rparr>"

definition reallyAtEnd :: "Lexer \<Rightarrow> bool" where
  "reallyAtEnd s = (sourceEnd s \<le> sourceBuffer s)"

text \<open>The marker is never beyond the cursor: \<^verbatim>\<open>mark()\<close> sets it to the cursor, which only advances.\<close>

definition lexemeLength :: "Lexer \<Rightarrow> nat" where
  "lexemeLength s = sourceBuffer s - marker s"

text \<open>\<^verbatim>\<open>Lexer::lexeme\<close> (lines 1007-1010): the bytes from the marker to the cursor.\<close>

definition lexeme :: "Lexer \<Rightarrow> string" where
  "lexeme s = map (byteAt (source s)) [marker s ..< marker s + lexemeLength s]"

text \<open>\<^verbatim>\<open>Lexer::addTrivia\<close> (lines 999-1001) and \<^verbatim>\<open>Lexer::addError\<close> (lines 1003-1005).\<close>

definition addTrivia :: "Lexer \<Rightarrow> TriviaKind \<Rightarrow> Lexer" where
  "addTrivia s k = s\<lparr>triviaBuffer := triviaBuffer s @ [Trivia k (lexeme s)]\<rparr>"

definition addError :: "Lexer \<Rightarrow> DiagCode \<Rightarrow> Lexer" where
  "addError s d = s\<lparr>diagnostics := diagnostics s @ [d]\<rparr>"

definition appendString :: "Lexer \<Rightarrow> char \<Rightarrow> Lexer" where
  "appendString s c = s\<lparr>stringBuffer := stringBuffer s @ [c]\<rparr>"

section \<open>Identifier, whitespace and comment scanners\<close>

text \<open>\<^verbatim>\<open>Lexer::scanIdentifier\<close> (lines 423-431).\<close>

function scanIdentifier :: "Lexer \<Rightarrow> Lexer" where
  "scanIdentifier s =
     (if isAlphaNumeric (peek s 0) \<or> peek s 0 = CHR ''_'' \<or> peek s 0 = CHR ''$''
      then scanIdentifier (advance s 1)
      else s)"
  by pat_completeness auto
termination
  by (relation "measure (\<lambda>s. length (source s) - sourceBuffer s)")
     (auto simp: advance_def peek_def byteAt_def isAlphaNumeric_def isAlpha_def
                 isDecimalDigit_def code_def split: if_splits)

declare scanIdentifier.simps [simp del]

text \<open>\<^verbatim>\<open>Lexer::scanWhitespace\<close> (lines 881-898): the loop, then the trivium.\<close>

function scanWhitespace_loop :: "Lexer \<Rightarrow> Lexer" where
  "scanWhitespace_loop s =
     (if peek s 0 = CHR '' '' \<or> peek s 0 = TAB \<or> peek s 0 = VT \<or> peek s 0 = FF
      then scanWhitespace_loop (advance s 1)
      else s)"
  by pat_completeness auto
termination
  by (relation "measure (\<lambda>s. length (source s) - sourceBuffer s)")
     (auto simp: advance_def peek_def byteAt_def split: if_splits)

declare scanWhitespace_loop.simps [simp del]

definition scanWhitespace :: "Lexer \<Rightarrow> Lexer" where
  "scanWhitespace s = addTrivia (scanWhitespace_loop s) Whitespace"

text \<open>
  \<^verbatim>\<open>Lexer::scanLineComment\<close> (lines 900-917). An embedded NUL is diagnosed and the cursor
  advances past it.
\<close>

function scanLineComment_loop :: "Lexer \<Rightarrow> Lexer" where
  "scanLineComment_loop s =
     (if isNewline (peek s 0) then s
      else if peek s 0 = NUL then
        (if reallyAtEnd s then s
         else scanLineComment_loop (advance (addError s EmbeddedNull) 1))
      else scanLineComment_loop (advance s 1))"
  by pat_completeness auto
termination
  by (relation "measure (\<lambda>s. max (length (source s)) (sourceEnd s) - sourceBuffer s)")
     (auto simp: advance_def addError_def reallyAtEnd_def peek_def byteAt_def
           split: if_splits)

declare scanLineComment_loop.simps [simp del]

definition scanLineComment :: "Lexer \<Rightarrow> Lexer" where
  "scanLineComment s = addTrivia (scanLineComment_loop s) LineComment"

text \<open>
  \<^verbatim>\<open>Lexer::scanBlockComment\<close> (lines 919-955). The loop may not return: at an embedded NUL
  (lines 923-931) the error is added and the loop repeats with the cursor where it was.
  \<open>None\<close> is the loop that never returns.
\<close>

partial_function (option) scanBlockComment_loop :: "bool \<Rightarrow> Lexer \<Rightarrow> (bool \<times> Lexer) option" where
  "scanBlockComment_loop eod s =
     (if peek s 0 = NUL then
        (if reallyAtEnd s then Some (eod, addError s UnterminatedBlockComment)
         else scanBlockComment_loop eod (addError s EmbeddedNull))
      else if peek s 0 = CHR ''*'' \<and> peek s 1 = CHR ''/'' then Some (eod, advance s 2)
      else if peek s 0 = CHR ''/'' \<and> peek s 1 = CHR ''*'' then
        scanBlockComment_loop eod (addError (advance s 2) NestedBlockComment)
      else if mode (advance s 1) \<noteq> NormalMode \<and> isNewline (peek s 0) then
        scanBlockComment_loop True
          ((addError (advance s 1) SplitBlockCommentInDirective)\<lparr>mode := NormalMode\<rparr>)
      else scanBlockComment_loop eod (advance s 1))"

definition scanBlockComment :: "Lexer \<Rightarrow> (bool \<times> Lexer) option" where
  "scanBlockComment s =
     (case scanBlockComment_loop False s of
        None \<Rightarrow> None
      | Some (eod, s') \<Rightarrow> Some (eod, addTrivia s' BlockComment))"

text \<open>\<^verbatim>\<open>Lexer::findNextNonWhitespace\<close> (lines 991-997).\<close>

function findNextNonWhitespace_loop :: "Lexer \<Rightarrow> nat \<Rightarrow> nat" where
  "findNextNonWhitespace_loop s lookahead =
     (if isHorizontalWhitespace (peek s lookahead)
      then findNextNonWhitespace_loop s (lookahead + 1)
      else lookahead)"
  by pat_completeness auto
termination
  by (relation "measure (\<lambda>(s, k). length (source s) - (sourceBuffer s + k))")
     (auto simp: peek_def byteAt_def isHorizontalWhitespace_def split: if_splits)

declare findNextNonWhitespace_loop.simps [simp del]

definition findNextNonWhitespace :: "Lexer \<Rightarrow> nat" where
  "findNextNonWhitespace s = findNextNonWhitespace_loop s 0"

text \<open>
  \<^verbatim>\<open>Lexer::lexTrivia\<close> (lines 827-879). In the backslash case (lines 869-874) the test
  reads \<^verbatim>\<open>peek()\<close>, the byte the switch has just matched. The loop returns when
  \<^verbatim>\<open>scanBlockComment\<close> does.
\<close>

partial_function (option) lexTrivia :: "Lexer \<Rightarrow> (bool \<times> Lexer) option" where
  "lexTrivia s =
     (if peek (mark s) 0 = CHR '' '' \<or> peek (mark s) 0 = TAB \<or> peek (mark s) 0 = VT
         \<or> peek (mark s) 0 = FF then
        lexTrivia (scanWhitespace (advance (mark s) 1))
      else if peek (mark s) 0 = CHR ''/'' then
        (if peek (mark s) 1 = CHR ''/'' then
           lexTrivia (scanLineComment (advance (mark s) 2))
         else if peek (mark s) 1 = CHR ''*'' then
           (case scanBlockComment (advance (mark s) 2) of
              None \<Rightarrow> None
            | Some (eod, s') \<Rightarrow> if eod then Some (True, s') else lexTrivia s')
         else Some (False, mark s))
      else if peek (mark s) 0 = CR then
        (if mode (mark s) \<noteq> NormalMode
         then Some (True, addTrivia (snd (consume (advance (mark s) 1) LF)) EndOfLine)
         else lexTrivia (addTrivia (snd (consume (advance (mark s) 1) LF)) EndOfLine))
      else if peek (mark s) 0 = LF then
        (if mode (mark s) \<noteq> NormalMode
         then Some (True, addTrivia (advance (mark s) 1) EndOfLine)
         else lexTrivia (addTrivia (advance (mark s) 1) EndOfLine))
      else if peek (mark s) 0 = BACKSLASH then
        (if mode (mark s) = NormalMode \<or> \<not> isNewline (peek (mark s) 0)
         then Some (False, mark s)
         else lexTrivia (advance (mark s) 1))
      else Some (False, mark s))"


section \<open>String literals\<close>

text \<open>
  The escape switch of \<^verbatim>\<open>Lexer::lexStringLiteral\<close> (lines 439-492), from the state whose
  cursor is at the backslash: \<^verbatim>\<open>advance(); c = peek(); advance();\<close> and the switch on c.
  \<open>charCode\<close> is at most 511, so the 32-bit arithmetic does not wrap; \<^verbatim>\<open>(char)charCode\<close>
  keeps the low eight bits.
\<close>

definition lexStringLiteral_escape :: "Lexer \<Rightarrow> Lexer" where
  "lexStringLiteral_escape s =
     (let c = peek s 1; s2 = advance s 2 in
      if c = CHR ''n'' then appendString s2 LF
      else if c = CHR ''t'' then appendString s2 TAB
      else if c = BACKSLASH then appendString s2 BACKSLASH
      else if c = DQUOTE then appendString s2 DQUOTE
      else if c = CHR ''v'' then appendString s2 VT
      else if c = CHR ''f'' then appendString s2 FF
      else if c = CHR ''a'' then appendString s2 BEL
      else if c = LF then s2
      else if c = CR then snd (consume s2 LF)
      else if isOctalDigit c then
        (if isOctalDigit (peek s2 0) then
           (if isOctalDigit (peek s2 1) then
              (if (getDigitValue c * 8 + getDigitValue (peek s2 0)) * 8
                    + getDigitValue (peek s2 1) > 255
               then addError (advance s2 2) OctalEscapeCodeTooBig
               else appendString (advance s2 2)
                      (char_of ((getDigitValue c * 8 + getDigitValue (peek s2 0)) * 8
                                  + getDigitValue (peek s2 1))))
            else appendString (advance s2 1)
                   (char_of (getDigitValue c * 8 + getDigitValue (peek s2 0))))
         else appendString s2 (char_of (getDigitValue c)))
      else if c = CHR ''x'' then
        (if \<not> isHexDigit (peek s2 0) then
           appendString (addError (advance s2 1) InvalidHexEscapeCode) (peek s2 0)
         else if isHexDigit (peek s2 1) then
           appendString (advance s2 2)
             (char_of (getHexDigitValue (peek s2 0) * 16 + getHexDigitValue (peek s2 1)))
         else appendString (advance s2 1) (char_of (getHexDigitValue (peek s2 0))))
      else appendString (addError s2 UnknownEscapeCode) c)"

text \<open>
  The loop of \<^verbatim>\<open>Lexer::lexStringLiteral\<close> (lines 436-515). It may not return: at an
  embedded NUL (lines 502-510) the error is added and the loop repeats with the cursor
  where it was. \<open>None\<close> is the loop that never returns.
\<close>

partial_function (option) lexStringLiteral_loop :: "Lexer \<Rightarrow> Lexer option" where
  "lexStringLiteral_loop s =
     (if peek s 0 = BACKSLASH then lexStringLiteral_loop (lexStringLiteral_escape s)
      else if peek s 0 = DQUOTE then Some (advance s 1)
      else if isNewline (peek s 0) then Some (addError s NewlineInStringLiteral)
      else if peek s 0 = NUL then
        (if reallyAtEnd s then Some (addError s UnterminatedStringLiteral)
         else lexStringLiteral_loop (addError s EmbeddedNull))
      else lexStringLiteral_loop (appendString (advance s 1) (peek s 0)))"

text \<open>\<^verbatim>\<open>Lexer::lexStringLiteral\<close> (lines 433-519).\<close>

definition lexStringLiteral :: "Lexer \<Rightarrow> (TokenData \<times> Lexer) option" where
  "lexStringLiteral s =
     (case lexStringLiteral_loop (s\<lparr>stringBuffer := []\<rparr>) of
        None \<Rightarrow> None
      | Some s' \<Rightarrow> Some (StringLiteralInfo (lexeme s') (stringBuffer s'), s'))"

section \<open>Escaped identifiers, system identifiers, directives\<close>

text \<open>\<^verbatim>\<open>Lexer::lexEscapeSequence\<close> (lines 521-538): the loop of lines 529-534.\<close>

function lexEscapeSequence_loop :: "Lexer \<Rightarrow> Lexer" where
  "lexEscapeSequence_loop s =
     (if isPrintable (peek s 0) then
        (if isWhitespace (peek (advance s 1) 0) then advance s 1
         else lexEscapeSequence_loop (advance s 1))
      else s)"
  by pat_completeness auto
termination
  by (relation "measure (\<lambda>s. length (source s) - sourceBuffer s)")
     (auto simp: advance_def peek_def byteAt_def isPrintable_def code_def split: if_splits)

declare lexEscapeSequence_loop.simps [simp del]

definition lexEscapeSequence :: "Lexer \<Rightarrow> TokenKind \<times> TokenData \<times> Lexer" where
  "lexEscapeSequence s =
     (if isWhitespace (peek s 0) \<or> peek s 0 = NUL then
        (Unknown, IdentifierInfo (lexeme s) UnknownId, addError s EscapedWhitespace)
      else
        (Identifier, IdentifierInfo (lexeme (lexEscapeSequence_loop s)) EscapedId,
         lexEscapeSequence_loop s))"

text \<open>\<^verbatim>\<open>Lexer::lexDollarSign\<close> (lines 540-550).\<close>

definition lexDollarSign :: "Lexer \<Rightarrow> TokenKind \<times> TokenData \<times> Lexer" where
  "lexDollarSign s =
     (if lexemeLength (scanIdentifier s) = 1 then (Dollar, NoData, scanIdentifier s)
      else (SystemIdentifier, IdentifierInfo (lexeme (scanIdentifier s)) SystemId,
            scanIdentifier s))"

text \<open>\<^verbatim>\<open>Lexer::lexDirective\<close> (lines 552-578).\<close>

definition lexDirective :: "Env \<Rightarrow> Lexer \<Rightarrow> TokenKind \<times> TokenData \<times> Lexer" where
  "lexDirective env s0 =
     (let s = scanIdentifier s0 in
      if lexemeLength s = 1 then
        (Unknown, IdentifierInfo (lexeme s) UnknownId, addError s MisplacedDirectiveChar)
      else
        (let directive = lexeme s; type = getDirectiveKind env directive in
         if type = MacroUsageTrivia then (MacroUsage, DirectiveInfo directive type, s)
         else if type = IncludeDirective then
           (Directive, DirectiveInfo directive type, s\<lparr>mode := IncludeMode\<rparr>)
         else (Directive, DirectiveInfo directive type, s\<lparr>mode := DirectiveMode\<rparr>)))"


section \<open>Numeric literals\<close>

text \<open>The loop of lines 583-584 and 670-671: skip over leading zeros.\<close>

function skipLeadingZeros :: "Lexer \<Rightarrow> Lexer" where
  "skipLeadingZeros s =
     (if peek s 0 = CHR ''0'' then skipLeadingZeros (advance s 1) else s)"
  by pat_completeness auto
termination
  by (relation "measure (\<lambda>s. length (source s) - sourceBuffer s)")
     (auto simp: advance_def peek_def byteAt_def split: if_splits)

declare skipLeadingZeros.simps [simp del]

text \<open>
  \<^verbatim>\<open>Lexer::scanUnsignedNumber\<close> (lines 643-659). \<open>unsignedVal\<close> is the \<^verbatim>\<open>uint64_t\<close>
  accumulator; \<open>digits\<close> is a C int, which counts bytes of the buffer and is modelled
  without a bound. The result is the character that ended the scan, the accumulator, the
  count and the lexer.
\<close>

function scanUnsignedNumber ::
  "char \<Rightarrow> 64 word \<Rightarrow> int \<Rightarrow> Lexer \<Rightarrow> char \<times> 64 word \<times> int \<times> Lexer" where
  "scanUnsignedNumber c unsignedVal digits s =
     (if isDecimalDigit c then
        scanUnsignedNumber (peek (advance s 1) 0)
          (if digits < 18 then unsignedVal * 10 + of_nat (getDigitValue c) else unsignedVal)
          (digits + 1) (advance s 1)
      else if c \<noteq> CHR ''_'' then (c, unsignedVal, digits, s)
      else scanUnsignedNumber (peek (advance s 1) 0) unsignedVal digits (advance s 1))"
  by pat_completeness auto
termination
  by (relation "measure (\<lambda>(c, v, d, s).
        if isDecimalDigit c \<or> c = CHR ''_''
        then 1 + (length (source s) - sourceBuffer s) else 0)")
     (auto simp: advance_def peek_def byteAt_def isDecimalDigit_def code_def
           split: if_splits)

declare scanUnsignedNumber.simps [simp del]

text \<open>
  \<^verbatim>\<open>Lexer::lexRealLiteral\<close> (lines 661-701). \<^verbatim>\<open>int(expVal)\<close> keeps the low 32 bits, read
  as two's complement; the int addition and subtraction are written with the same
  wrap-around. The call of \<^verbatim>\<open>composeDouble\<close> (line 697) is the parameter of \<open>Env\<close>.
\<close>

definition int32 :: "int \<Rightarrow> int" where
  "int32 i = sint (word_of_int i :: 32 word)"

definition lexRealLiteral ::
  "Env \<Rightarrow> 64 word \<Rightarrow> int \<Rightarrow> int \<Rightarrow> bool \<Rightarrow> Lexer \<Rightarrow> TokenData \<times> Lexer" where
  "lexRealLiteral env val decPoint digits exponent s =
     (let (neg, expVal, s1) =
            (if exponent then
               (let z = skipLeadingZeros (advance s 1);
                    (neg, t) =
                      (if peek z 0 = CHR ''+'' then (False, advance z 1)
                       else if peek z 0 = CHR ''-'' then (True, advance z 1)
                       else (False, z))
                in if \<not> isDecimalDigit (peek t 0)
                   then (neg, 0, addError t MissingExponentDigits)
                   else (case scanUnsignedNumber (peek t 0) 0 0 t of
                           (c, expVal, unusedDigits, u) \<Rightarrow> (neg, expVal, u)))
             else (False, 0, s));
          fracExp = decPoint - min digits 18;
          exp = (if neg then int32 (fracExp - int32 (uint expVal))
                 else int32 (fracExp + int32 (uint expVal)));
          (finite, result) = composeDouble env val exp;
          s2 = (if \<not> finite then addError s1 RealExponentTooLarge else s1)
      in (NumericLiteralInfo (lexeme s2) (RealValue result), s2))"

text \<open>
  \<^verbatim>\<open>Lexer::lexVectorDigits\<close> (lines 791-825). The template is instantiated at four pairs
  of a digit predicate and a value function (lines 732-744 and 759-771); \<open>VectorBase\<close>
  names the pair.
\<close>

datatype VectorBase = DecimalBase | OctalBase | HexBase | BinaryBase

fun IsDigitFunc :: "VectorBase \<Rightarrow> char \<Rightarrow> bool" where
  "IsDigitFunc DecimalBase = isDecimalDigit"
| "IsDigitFunc OctalBase = isOctalDigit"
| "IsDigitFunc HexBase = isHexDigit"
| "IsDigitFunc BinaryBase = isBinaryDigit"

fun ValueFunc :: "VectorBase \<Rightarrow> char \<Rightarrow> nat" where
  "ValueFunc DecimalBase = getDigitValue"
| "ValueFunc OctalBase = getDigitValue"
| "ValueFunc HexBase = getHexDigitValue"
| "ValueFunc BinaryBase = getDigitValue"

definition addDigit :: "Lexer \<Rightarrow> logic_t \<Rightarrow> Lexer" where
  "addDigit s d = s\<lparr>vectorBuilder := vb_addDigit (vectorBuilder s) d\<rparr>"

lemma IsDigitFunc_not_NUL: "IsDigitFunc b c \<Longrightarrow> c \<noteq> NUL"
  by (cases b)
     (auto simp: isDecimalDigit_def isOctalDigit_def isHexDigit_def isBinaryDigit_def
                 code_def)

function lexVectorDigits_loop :: "VectorBase \<Rightarrow> Lexer \<Rightarrow> Lexer" where
  "lexVectorDigits_loop b s =
     (if peek s 0 = CHR ''_'' then lexVectorDigits_loop b (advance s 1)
      else if peek s 0 = CHR ''z'' \<or> peek s 0 = CHR ''Z'' \<or> peek s 0 = CHR ''?'' then
        lexVectorDigits_loop b (advance (addDigit s logic_z) 1)
      else if peek s 0 = CHR ''x'' \<or> peek s 0 = CHR ''X'' then
        lexVectorDigits_loop b (advance (addDigit s logic_x) 1)
      else if IsDigitFunc b (peek s 0) then
        lexVectorDigits_loop b (advance (addDigit s (Digit (ValueFunc b (peek s 0)))) 1)
      else s)"
  by pat_completeness auto
termination
  by (relation "measure (\<lambda>(b, s). length (source s) - sourceBuffer s)")
     (auto simp: advance_def addDigit_def peek_def byteAt_def
           dest: IsDigitFunc_not_NUL split: if_splits)

declare lexVectorDigits_loop.simps [simp del]

definition lexVectorDigits :: "VectorBase \<Rightarrow> Lexer \<Rightarrow> TokenData \<times> Lexer" where
  "lexVectorDigits b s =
     (let lookahead = findNextNonWhitespace s; c = peek s lookahead in
      if \<not> IsDigitFunc b c \<and> \<not> isLogicDigit c then
        (NumericLiteralInfo (lexeme s) (IntValue 0), addError s MissingVectorDigits)
      else
        (let s1 = lexVectorDigits_loop b (advance s lookahead) in
         (NumericLiteralInfo (lexeme s1) (VectorValue (vb_toVector (vectorBuilder s1))), s1)))"

text \<open>The base switch shared by lines 728-749 and 755-771.\<close>

definition baseOf :: "char \<Rightarrow> VectorBase option" where
  "baseOf c =
     (if c = CHR ''d'' \<or> c = CHR ''D'' then Some DecimalBase
      else if c = CHR ''o'' \<or> c = CHR ''O'' then Some OctalBase
      else if c = CHR ''h'' \<or> c = CHR ''H'' then Some HexBase
      else if c = CHR ''b'' \<or> c = CHR ''B'' then Some BinaryBase
      else None)"

text \<open>\<^verbatim>\<open>Lexer::lexVectorLiteral\<close> (lines 703-750).\<close>

definition lexVectorLiteral :: "64 word \<Rightarrow> Lexer \<Rightarrow> TokenData \<times> Lexer" where
  "lexVectorLiteral size64 s =
     (let (size32, s1) =
            (if size64 = 0 then (0 :: 32 word, addError s IntegerSizeZero)
             else if size64 > 0xFFFFFFFF
               then (ucast (0xFFFFFFFF :: 64 word), addError s IntegerSizeTooLarge)
             else (ucast size64, s));
          (isSigned, s2) =
            (if peek s1 0 = CHR ''s'' \<or> peek s1 0 = CHR ''S'' then (True, advance s1 1)
             else (False, s1));
          s3 = s2\<lparr>vectorBuilder := vb_start size32 isSigned\<rparr>
      in case baseOf (peek s3 0) of
           Some b \<Rightarrow> lexVectorDigits b (advance s3 1)
         | None \<Rightarrow>
             (NumericLiteralInfo (lexeme s3) (IntValue 0), addError s3 MissingVectorBase))"

text \<open>\<^verbatim>\<open>Lexer::lexUnsizedNumericLiteral\<close> (lines 752-789).\<close>

definition lexUnsizedNumericLiteral :: "Lexer \<Rightarrow> TokenData \<times> Lexer" where
  "lexUnsizedNumericLiteral s0 =
     (let s = s0\<lparr>vectorBuilder := vb_startUnsized\<rparr>; c = peek s 0 in
      case baseOf c of
        Some b \<Rightarrow> lexVectorDigits b (advance s 1)
      | None \<Rightarrow>
          (if c = CHR ''0'' \<or> c = CHR ''1'' then
             (NumericLiteralInfo (lexeme (advance s 1)) (LogicValue (Digit (getDigitValue c))),
              advance s 1)
           else if c = CHR ''x'' \<or> c = CHR ''X'' then
             (NumericLiteralInfo (lexeme (advance s 1)) (LogicValue logic_x), advance s 1)
           else if c = CHR ''Z'' \<or> c = CHR ''z'' then
             (NumericLiteralInfo (lexeme (advance s 1)) (LogicValue logic_z), advance s 1)
           else
             (NumericLiteralInfo (lexeme s) (IntValue 0), addError s InvalidUnsizedLiteral)))"

text \<open>
  \<^verbatim>\<open>Lexer::lexNumericLiteral\<close> (lines 580-641). \<^verbatim>\<open>INT32_MAX\<close> is 0x7FFFFFFF; the comparison
  of line 634 is unsigned, at 64 bits.
\<close>

definition lexNumericLiteral :: "Env \<Rightarrow> Lexer \<Rightarrow> TokenKind \<times> TokenData \<times> Lexer" where
  "lexNumericLiteral env s0 =
     (let s1 = skipLeadingZeros s0;
          (c, unsignedVal, digits, s2) = scanUnsignedNumber (peek s1 0) 0 0 s1;
          lookahead = findNextNonWhitespace s2
      in if lookahead > 0 \<and> peek s2 lookahead = APOSTROPHE then
           (case lexVectorLiteral unsignedVal (advance s2 (lookahead + 1)) of
              (d, s3) \<Rightarrow> (IntegerLiteral, d, s3))
         else if peek s2 0 = APOSTROPHE then
           (case lexVectorLiteral unsignedVal (advance s2 1) of
              (d, s3) \<Rightarrow> (IntegerLiteral, d, s3))
         else if peek s2 0 = CHR ''.'' then
           (let decPoint = digits;
                s3 = advance s2 1;
                s4 = (if \<not> isDecimalDigit (peek s3 0)
                      then addError s3 MissingFractionalDigits else s3);
                (c', unsignedVal', digits', s5) =
                   scanUnsignedNumber (peek s4 0) unsignedVal digits s4
            in case lexRealLiteral env unsignedVal' decPoint digits'
                      (c' = CHR ''e'' \<or> c' = CHR ''E'') s5 of
                 (d, s6) \<Rightarrow> (RealLiteral, d, s6))
         else if peek s2 0 = CHR ''e'' \<or> peek s2 0 = CHR ''E'' then
           (case lexRealLiteral env unsignedVal digits digits True s2 of
              (d, s3) \<Rightarrow> (RealLiteral, d, s3))
         else if unsignedVal > 0x7FFFFFFF then
           (IntegerLiteral,
            NumericLiteralInfo (lexeme s2) (IntValue (ucast (0x7FFFFFFF :: 64 word))),
            addError s2 SignedLiteralTooLarge)
         else
           (IntegerLiteral, NumericLiteralInfo (lexeme s2) (IntValue (ucast unsignedVal)), s2))"


section \<open>Token dispatch\<close>

text \<open>
  \<^verbatim>\<open>Lexer::lexToken\<close> (lines 145-421): \<^verbatim>\<open>c = peek(); advance();\<close> and the switch on c, in
  the order of the source. \<open>s\<close> is the lexer after the advance, \<open>s0\<close> the lexer before it
  (which \<^verbatim>\<open>sourceBuffer--\<close> of line 267 restores). The result is \<open>None\<close> when the string
  literal loop never returns.
\<close>

definition lexToken :: "Env \<Rightarrow> Lexer \<Rightarrow> (TokenKind \<times> TokenData \<times> Lexer) option" where
  "lexToken env s0 =
     (let c = peek s0 0; s = advance s0 1 in
      if c = NUL then
        (if sourceBuffer s \<le> sourceEnd s then
           Some (Unknown, IdentifierInfo (lexeme s) UnknownId, addError s EmbeddedNull)
         else Some (EndOfFile, NoData, s))
      else if c = CHR ''!'' then
        (if peek s 0 = CHR ''='' then
           (if peek s 1 = CHR ''='' then Some (ExclamationDoubleEquals, NoData, advance s 2)
            else if peek s 1 = CHR ''?'' then
              Some (ExclamationEqualsQuestion, NoData, advance s 2)
            else Some (ExclamationEquals, NoData, advance s 1))
         else Some (Exclamation, NoData, s))
      else if c = DQUOTE then
        (case lexStringLiteral s of
           None \<Rightarrow> None
         | Some (d, s') \<Rightarrow> Some (StringLiteral, d, s'))
      else if c = CHR ''#'' then
        (if peek s 0 = CHR ''#'' then Some (DoubleHash, NoData, advance s 1)
         else if peek s 0 = CHR ''-'' then
           (if peek s 1 = CHR ''#'' then Some (HashMinusHash, NoData, advance s 2)
            else Some (Hash, NoData, s))
         else if peek s 0 = CHR ''='' then
           (if peek s 1 = CHR ''#'' then Some (HashEqualsHash, NoData, advance s 2)
            else Some (Hash, NoData, s))
         else Some (Hash, NoData, s))
      else if c = CHR ''$'' then Some (lexDollarSign s)
      else if c = CHR ''%'' then
        (if peek s 0 = CHR ''='' then Some (PercentEqual, NoData, advance s 1)
         else Some (Percent, NoData, s))
      else if c = CHR ''&'' then
        (if peek s 0 = CHR ''&'' then
           (if peek s 1 = CHR ''&'' then Some (TripleAnd, NoData, advance s 2)
            else Some (DoubleAnd, NoData, advance s 1))
         else if peek s 0 = CHR ''='' then Some (AndEqual, NoData, advance s 1)
         else Some (And, NoData, s))
      else if c = APOSTROPHE then
        (if peek s 0 = CHR ''{'' then Some (ApostropheOpenBrace, NoData, advance s 1)
         else (case lexUnsizedNumericLiteral s of
                 (d, s') \<Rightarrow> Some (IntegerLiteral, d, s')))
      else if c = CHR ''('' then
        (if peek s 0 = CHR ''*'' then Some (OpenParenthesisStar, NoData, advance s 1)
         else Some (OpenParenthesis, NoData, s))
      else if c = CHR '')'' then Some (CloseParenthesis, NoData, s)
      else if c = CHR ''*'' then
        (if peek s 0 = CHR ''*'' then Some (DoubleStar, NoData, advance s 1)
         else if peek s 0 = CHR ''='' then Some (StarEqual, NoData, advance s 1)
         else if peek s 0 = CHR ''>'' then Some (StarArrow, NoData, advance s 1)
         else if peek s 0 = CHR '')'' then Some (StarCloseParenthesis, NoData, advance s 1)
         else if peek s 0 = CHR '':'' then
           (if peek s 1 = CHR '':'' \<and> peek s 2 = CHR ''*''
            then Some (StarDoubleColonStar, NoData, advance s 3)
            else Some (Star, NoData, s))
         else Some (Star, NoData, s))
      else if c = CHR ''+'' then
        (if peek s 0 = CHR ''+'' then Some (DoublePlus, NoData, advance s 1)
         else if peek s 0 = CHR ''='' then Some (PlusEqual, NoData, advance s 1)
         else if peek s 0 = CHR '':'' then Some (PlusColon, NoData, advance s 1)
         else Some (Plus, NoData, s))
      else if c = CHR '','' then Some (Comma, NoData, s)
      else if c = CHR ''-'' then
        (if peek s 0 = CHR ''-'' then Some (DoubleMinus, NoData, advance s 1)
         else if peek s 0 = CHR ''='' then Some (MinusEqual, NoData, advance s 1)
         else if peek s 0 = CHR '':'' then Some (MinusColon, NoData, advance s 1)
         else if peek s 0 = CHR ''>'' then
           (if peek s 1 = CHR ''>'' then Some (MinusDoubleArrow, NoData, advance s 2)
            else Some (MinusArrow, NoData, advance s 1))
         else Some (Minus, NoData, s))
      else if c = CHR ''.'' then
        (if peek s 0 = CHR ''*'' then Some (DotStar, NoData, advance s 1)
         else Some (Dot, NoData, s))
      else if c = CHR ''/'' then
        (if peek s 0 = CHR ''='' then Some (SlashEqual, NoData, advance s 1)
         else Some (Slash, NoData, s))
      else if isDecimalDigit c then Some (lexNumericLiteral env s0)
      else if c = CHR '':'' then
        (if peek s 0 = CHR ''='' then Some (ColonEquals, NoData, advance s 1)
         else if peek s 0 = CHR ''/'' then Some (ColonSlash, NoData, advance s 1)
         else if peek s 0 = CHR '':'' then Some (DoubleColon, NoData, advance s 1)
         else Some (Colon, NoData, s))
      else if c = CHR '';'' then Some (Semicolon, NoData, s)
      else if c = CHR ''<'' then
        (if peek s 0 = CHR ''='' then Some (LessThanEquals, NoData, advance s 1)
         else if peek s 0 = CHR ''-'' then
           (if peek s 1 = CHR ''>'' then Some (LessThanMinusArrow, NoData, advance s 2)
            else Some (LessThan, NoData, s))
         else if peek s 0 = CHR ''<'' then
           (if peek s 1 = CHR ''<'' then
              (if peek s 2 = CHR ''='' then Some (TripleLeftShiftEqual, NoData, advance s 3)
               else Some (TripleLeftShift, NoData, advance s 2))
            else if peek s 1 = CHR ''='' then Some (LeftShiftEqual, NoData, advance s 2)
            else Some (LeftShift, NoData, advance s 1))
         else Some (LessThan, NoData, s))
      else if c = CHR ''='' then
        (if peek s 0 = CHR ''='' then
           (if peek s 1 = CHR ''='' then Some (TripleEquals, NoData, advance s 2)
            else if peek s 1 = CHR ''?'' then Some (DoubleEqualsQuestion, NoData, advance s 2)
            else Some (DoubleEquals, NoData, advance s 1))
         else if peek s 0 = CHR ''>'' then Some (EqualsArrow, NoData, advance s 1)
         else Some (Equals, NoData, s))
      else if c = CHR ''>'' then
        (if peek s 0 = CHR ''='' then Some (GreaterThanEquals, NoData, advance s 1)
         else if peek s 0 = CHR ''>'' then
           (if peek s 1 = CHR ''>'' then
              (if peek s 2 = CHR ''='' then Some (TripleRightShiftEqual, NoData, advance s 3)
               else Some (TripleRightShift, NoData, advance s 2))
            else if peek s 1 = CHR ''='' then Some (RightShiftEqual, NoData, advance s 2)
            else Some (RightShift, NoData, advance s 1))
         else Some (GreaterThan, NoData, s))
      else if c = CHR ''?'' then Some (Question, NoData, s)
      else if c = CHR ''@'' then
        (if peek s 0 = CHR ''@'' then Some (DoubleAt, NoData, advance s 1)
         else Some (At, NoData, s))
      else if isAlpha c \<or> c = CHR ''_'' then
        Some (Identifier, IdentifierInfo (lexeme (scanIdentifier s)) NormalId,
              scanIdentifier s)
      else if c = CHR ''['' then Some (OpenBracket, NoData, s)
      else if c = BACKSLASH then Some (lexEscapeSequence s)
      else if c = CHR '']'' then Some (CloseBracket, NoData, s)
      else if c = CHR ''^'' then
        (if peek s 0 = CHR ''~'' then Some (XorTilde, NoData, advance s 1)
         else if peek s 0 = CHR ''='' then Some (XorEqual, NoData, advance s 1)
         else Some (Xor, NoData, s))
      else if c = BACKQUOTE then
        (if peek s 0 = DQUOTE then Some (MacroQuote, NoData, advance s 1)
         else if peek s 0 = BACKQUOTE then Some (MacroPaste, NoData, advance s 1)
         else if peek s 0 = BACKSLASH then
           (if peek s 1 = BACKQUOTE \<and> peek s 2 = DQUOTE
            then Some (MacroEscapedQuote, NoData, advance s 3)
            else Some (lexDirective env s))
         else Some (lexDirective env s))
      else if c = CHR ''{'' then Some (OpenBrace, NoData, s)
      else if c = CHR ''|'' then
        (if peek s 0 = CHR ''|'' then Some (DoubleOr, NoData, advance s 1)
         else if peek s 0 = CHR ''-'' then
           (if peek s 1 = CHR ''>'' then Some (OrMinusArrow, NoData, advance s 2)
            else Some (Or, NoData, s))
         else if peek s 0 = CHR ''='' then
           (if peek s 1 = CHR ''>'' then Some (OrEqualsArrow, NoData, advance s 2)
            else Some (OrEqual, NoData, advance s 1))
         else Some (Or, NoData, s))
      else if c = CHR ''}'' then Some (CloseBrace, NoData, s)
      else if c = CHR ''~'' then
        (if peek s 0 = CHR ''&'' then Some (TildeAnd, NoData, advance s 1)
         else if peek s 0 = CHR ''|'' then Some (TildeOr, NoData, advance s 1)
         else if peek s 0 = CHR ''^'' then Some (TildeXor, NoData, advance s 1)
         else Some (Tilde, NoData, s))
      else if isASCII c then
        Some (Unknown, IdentifierInfo (lexeme s) UnknownId, addError s NonPrintableChar)
      else
        Some (Unknown, IdentifierInfo (lexeme (advance s (utf8SeqBytes c))) UnknownId,
              addError (advance s (utf8SeqBytes c)) UTF8Char))"

section \<open>The public operation\<close>

text \<open>
  \<^verbatim>\<open>Lexer::lex\<close> (lines 112-143). The assertion of line 113 is the error; the result of
  \<^verbatim>\<open>lexTrivia\<close> is dropped (line 117; the code that read it, lines 119-135, is commented
  out). \<open>None\<close> is a call that never returns.
\<close>

definition Lexer_lex :: "Env \<Rightarrow> Lexer \<Rightarrow> (error + Token \<times> Lexer) option" where
  "Lexer_lex env s =
     (if reallyAtEnd s then Some (Inl AssertionFailed)
      else
        (case lexTrivia (s\<lparr>triviaBuffer := []\<rparr>) of
           None \<Rightarrow> None
         | Some (eod, s1) \<Rightarrow>
             (case lexToken env (mark s1) of
                None \<Rightarrow> None
              | Some (k, d, s2) \<Rightarrow>
                  Some (Inr (\<lparr>kind = k, data = d, trivia = triviaBuffer s2\<rparr>, s2)))))"

text \<open>
  The constructor (lines 78-110). \<^verbatim>\<open>StringRef\<close> is not part of the sources: \<open>ptr\<close> is the
  memory at \<^verbatim>\<open>source.begin()\<close>, \<open>len\<close> is \<^verbatim>\<open>source.length()\<close>, so that \<^verbatim>\<open>source.end()\<close> is at
  offset \<open>len\<close>, and \<open>isNullTerminated\<close> is what \<^verbatim>\<open>source.isNullTerminated()\<close> returns. A null
  \<^verbatim>\<open>StringRef\<close> (line 90) has no memory.
\<close>

record StringRef =
  ptr :: "string option"
  len :: nat
  isNullTerminated :: bool

definition Lexer_new :: "StringRef \<Rightarrow> error + Lexer" where
  "Lexer_new src =
     (case ptr src of
        None \<Rightarrow> Inl AssertionFailed
      | Some bytes \<Rightarrow>
          if \<not> isNullTerminated src then Inl AssertionFailed
          else
            (let s = \<lparr>source = bytes, sourceBuffer = 0, sourceEnd = len src, marker = 0,
                      mode = NormalMode, diagnostics = [], stringBuffer = [],
                      triviaBuffer = [], vectorBuilder = vb_startUnsized\<rparr>
             in if len src \<ge> 2 then
                  (if (byteAt bytes 0 = CHR 0xFF \<and> byteAt bytes 1 = CHR 0xFE)
                      \<or> (byteAt bytes 0 = CHR 0xFE \<and> byteAt bytes 1 = CHR 0xFF)
                   then Inr (advance (addError s UnicodeBOM) 2)
                   else if len src \<ge> 3 then
                     (if byteAt bytes 0 = CHR 0xEF \<and> byteAt bytes 1 = CHR 0xBB
                         \<and> byteAt bytes 2 = CHR 0xBF
                      then Inr (advance (addError s UnicodeBOM) 3)
                      else Inr s)
                   else Inr s)
                else Inr s))"


text \<open>
  The lexer as the constructor leaves it on a text without a byte order mark: the memory
  is the text and its terminating NUL, and \<^verbatim>\<open>source.end()\<close> addresses that NUL (line 152
  takes a NUL for the end of the file only when the cursor, already advanced, is beyond
  \<open>sourceEnd\<close>).
\<close>

definition lexerOn :: "string \<Rightarrow> Lexer" where
  "lexerOn text =
     \<lparr>source = text @ [NUL], sourceBuffer = 0, sourceEnd = length text, marker = 0,
      mode = NormalMode, diagnostics = [], stringBuffer = [],
      triviaBuffer = [], vectorBuilder = vb_startUnsized\<rparr>"

text \<open>
  Modelled from the spec: SyntaxFacts is not part of the sources. The spec gives it as the
  pure function from a directive name to its kind (IncludeDirective, MacroUsage, other);
  a name that is no directive of the language is a macro usage. The table is used for
  concrete inputs only: the lexer takes the function from its environment.
\<close>

definition directiveTable :: "string \<Rightarrow> TriviaKind" where
  "directiveTable name =
     (if name = ''`include'' then IncludeDirective
      else if name = ''`define'' then DefineDirective
      else if name \<in> set [''`ifdef'', ''`ifndef'', ''`else'', ''`elsif'', ''`endif'',
                             ''`undef'', ''`timescale'', ''`line'', ''`resetall'']
        then OtherDirective
      else MacroUsageTrivia)"

text \<open>A caller that pulls \<open>n\<close> tokens, stopping at the first call that fails.\<close>

primrec pull :: "Env \<Rightarrow> nat \<Rightarrow> Lexer \<Rightarrow> (error + Token list \<times> Lexer) option" where
  "pull env 0 s = Some (Inr ([], s))"
| "pull env (Suc n) s =
     (case Lexer_lex env s of
        None \<Rightarrow> None
      | Some (Inl e) \<Rightarrow> Some (Inl e)
      | Some (Inr (t, s')) \<Rightarrow>
          (case pull env n s' of
             None \<Rightarrow> None
           | Some (Inl e) \<Rightarrow> Some (Inl e)
           | Some (Inr (ts, s'')) \<Rightarrow> Some (Inr (t # ts, s''))))"

section \<open>Basic facts\<close>

text \<open>On a text that starts with an ASCII byte (or is empty), the constructor gives \<open>lexerOn\<close>.\<close>

lemma Lexer_new_lexerOn:
  assumes "isASCII (byteAt (inp @ [NUL]) 0)"
  shows "Lexer_new \<lparr>ptr = Some (inp @ [NUL]), len = length inp, isNullTerminated = True\<rparr>
           = Inr (lexerOn inp)"
proof -
  have "byteAt (inp @ [NUL]) 0 \<noteq> CHR 0xFF" "byteAt (inp @ [NUL]) 0 \<noteq> CHR 0xFE"
    "byteAt (inp @ [NUL]) 0 \<noteq> CHR 0xEF"
    using assms by (auto simp: isASCII_def code_def)
  then show ?thesis
    by (simp add: Lexer_new_def lexerOn_def Let_def)
qed


lemma peek_advance [simp]: "peek (advance s n) k = peek s (n + k)"
  by (simp add: peek_def advance_def add.assoc)

lemma advance_advance [simp]: "advance (advance s a) b = advance s (a + b)"
  by (simp add: advance_def add.assoc)

lemma lexDollarSign_kind:
  "lexDollarSign s = (k, d, s') \<Longrightarrow> k = Dollar \<or> k = SystemIdentifier"
  by (auto simp: lexDollarSign_def split: if_splits)

lemma lexEscapeSequence_kind:
  "lexEscapeSequence s = (k, d, s') \<Longrightarrow> k = Unknown \<or> k = Identifier"
  by (auto simp: lexEscapeSequence_def split: if_splits)

lemma lexDirective_kind:
  "lexDirective env s = (k, d, s') \<Longrightarrow> k = Unknown \<or> k = MacroUsage \<or> k = Directive"
  by (auto simp: lexDirective_def Let_def split: if_splits)

lemma lexNumericLiteral_kind:
  "lexNumericLiteral env s = (k, d, s') \<Longrightarrow> k = IntegerLiteral \<or> k = RealLiteral"
  by (auto simp: lexNumericLiteral_def Let_def split: if_splits prod.splits)


lemma lexToken_not_EndOfDirective:
  assumes "lexToken env s = Some (EndOfDirective, d, s')"
  shows False
  using assms
  unfolding lexToken_def Let_def
  by (auto split: if_splits option.splits prod.splits
           dest: lexDollarSign_kind lexEscapeSequence_kind lexDirective_kind lexNumericLiteral_kind)


lemma advance_fields:
  "source (advance s n) = source s" "sourceBuffer (advance s n) = sourceBuffer s + n"
  "sourceEnd (advance s n) = sourceEnd s" "marker (advance s n) = marker s"
  "mode (advance s n) = mode s" "diagnostics (advance s n) = diagnostics s"
  "stringBuffer (advance s n) = stringBuffer s" "triviaBuffer (advance s n) = triviaBuffer s"
  "vectorBuilder (advance s n) = vectorBuilder s"
  by (simp_all add: advance_def)

lemma addError_fields:
  "source (addError s d) = source s" "sourceBuffer (addError s d) = sourceBuffer s"
  "sourceEnd (addError s d) = sourceEnd s" "marker (addError s d) = marker s"
  "mode (addError s d) = mode s" "diagnostics (addError s d) = diagnostics s @ [d]"
  "stringBuffer (addError s d) = stringBuffer s" "triviaBuffer (addError s d) = triviaBuffer s"
  "vectorBuilder (addError s d) = vectorBuilder s" "peek (addError s d) k = peek s k"
  by (simp_all add: addError_def peek_def)


lemmas eval_defs =
  lexerOn_def peek_def byteAt_def advance_def mark_def reallyAtEnd_def addTrivia_def
  addError_def appendString_def lexeme_def lexemeLength_def consume_def
  isNewline_def isDecimalDigit_def isOctalDigit_def isHexDigit_def isBinaryDigit_def
  isLogicDigit_def isAlpha_def isAlphaNumeric_def isHorizontalWhitespace_def
  isWhitespace_def isPrintable_def isASCII_def code_def getDigitValue_def
  getHexDigitValue_def Let_def


lemmas lex_eval =
  Lexer_lex_def lexTrivia.simps lexToken_def lexDirective_def lexDollarSign_def
  scanIdentifier.simps scanWhitespace_def scanWhitespace_loop.simps
  scanLineComment_def scanLineComment_loop.simps
  scanBlockComment_def scanBlockComment_loop.simps
  lexNumericLiteral_def skipLeadingZeros.simps scanUnsignedNumber.simps
  findNextNonWhitespace_def findNextNonWhitespace_loop.simps eval_defs

section \<open>Operators: the shift family\<close>

text \<open>
  C8. Maximal munch for the shift operators. Whenever the next two bytes are \<^verbatim>\<open><<\<close>,
  \<^verbatim>\<open>lexToken\<close> returns the longest of \<^verbatim>\<open><<<=\<close>, \<^verbatim>\<open><<<\<close>, \<^verbatim>\<open><<=\<close>, \<^verbatim>\<open><<\<close> that the following
  bytes spell, as one token, and the cursor ends right after it; the same holds for \<^verbatim>\<open>>>\<close>.
  So \<^verbatim>\<open><<<=\<close> is the single token TripleLeftShiftEqual, \<^verbatim>\<open><<=\<close> is LeftShiftEqual and
  \<^verbatim>\<open><<\<close> is LeftShift.
\<close>

theorem shift_maximal_munch:
  "(peek s 0 = CHR ''<'' \<and> peek s 1 = CHR ''<'' \<longrightarrow>
      lexToken env s =
        Some (if peek s 2 = CHR ''<'' then
                (if peek s 3 = CHR ''='' then (TripleLeftShiftEqual, NoData, advance s 4)
                 else (TripleLeftShift, NoData, advance s 3))
              else if peek s 2 = CHR ''='' then (LeftShiftEqual, NoData, advance s 3)
              else (LeftShift, NoData, advance s 2)))
   \<and> (peek s 0 = CHR ''>'' \<and> peek s 1 = CHR ''>'' \<longrightarrow>
      lexToken env s =
        Some (if peek s 2 = CHR ''>'' then
                (if peek s 3 = CHR ''='' then (TripleRightShiftEqual, NoData, advance s 4)
                 else (TripleRightShift, NoData, advance s 3))
              else if peek s 2 = CHR ''='' then (RightShiftEqual, NoData, advance s 3)
              else (RightShift, NoData, advance s 2)))"
  by (simp add: lexToken_def Let_def isDecimalDigit_def code_def eval_nat_numeral)


text \<open>
  The three inputs of the claim, through the public operation: one call returns the
  token, with no trivia, and leaves the cursor at the end of the text.
\<close>

theorem shift_maximal_munch_witness:
  "\<forall>env.
     Lexer_lex env (lexerOn ''<<<='') =
       Some (Inr (\<lparr>kind = TripleLeftShiftEqual, data = NoData, trivia = []\<rparr>,
                  advance (lexerOn ''<<<='') 4))
   \<and> Lexer_lex env (lexerOn ''<<='') =
       Some (Inr (\<lparr>kind = LeftShiftEqual, data = NoData, trivia = []\<rparr>,
                  advance (lexerOn ''<<='') 3))
   \<and> Lexer_lex env (lexerOn ''<<'') =
       Some (Inr (\<lparr>kind = LeftShift, data = NoData, trivia = []\<rparr>,
                  advance (lexerOn ''<<'') 2))
   \<and> sourceBuffer (advance (lexerOn ''<<<='') 4) = length ''<<<=''
   \<and> sourceBuffer (advance (lexerOn ''<<='') 3) = length ''<<=''
   \<and> sourceBuffer (advance (lexerOn ''<<'') 2) = length ''<<''"
proof (intro allI conjI)
  fix env
  have a: "lexToken env (mark (lexerOn ''<<<='')) =
             Some (TripleLeftShiftEqual, NoData, advance (mark (lexerOn ''<<<='')) 4)"
    using shift_maximal_munch [of "mark (lexerOn ''<<<='')" env] by (simp add: eval_defs)
  show "Lexer_lex env (lexerOn ''<<<='') =
       Some (Inr (\<lparr>kind = TripleLeftShiftEqual, data = NoData, trivia = []\<rparr>,
                  advance (lexerOn ''<<<='') 4))"
    using a by (simp add: Lexer_lex_def lexTrivia.simps eval_defs)
  have b: "lexToken env (mark (lexerOn ''<<='')) =
             Some (LeftShiftEqual, NoData, advance (mark (lexerOn ''<<='')) 3)"
    using shift_maximal_munch [of "mark (lexerOn ''<<='')" env] by (simp add: eval_defs)
  show "Lexer_lex env (lexerOn ''<<='') =
       Some (Inr (\<lparr>kind = LeftShiftEqual, data = NoData, trivia = []\<rparr>,
                  advance (lexerOn ''<<='') 3))"
    using b by (simp add: Lexer_lex_def lexTrivia.simps eval_defs)
  have c: "lexToken env (mark (lexerOn ''<<'')) =
             Some (LeftShift, NoData, advance (mark (lexerOn ''<<'')) 2)"
    using shift_maximal_munch [of "mark (lexerOn ''<<'')" env] by (simp add: eval_defs)
  show "Lexer_lex env (lexerOn ''<<'') =
       Some (Inr (\<lparr>kind = LeftShift, data = NoData, trivia = []\<rparr>,
                  advance (lexerOn ''<<'') 2))"
    using c by (simp add: Lexer_lex_def lexTrivia.simps eval_defs)
qed (simp_all add: eval_defs)



section \<open>The end of the file\<close>

text \<open>
  At a NUL, \<^verbatim>\<open>lexToken\<close> returns EndOfFile exactly when \<^verbatim>\<open>reallyAtEnd()\<close> held before the
  advance (the test of line 152, on the advanced cursor, is that of \<^verbatim>\<open>reallyAtEnd()\<close> before
  it), and an Unknown token with EmbeddedNull otherwise.
\<close>

lemma lexToken_NUL:
  assumes "peek s 0 = NUL"
  shows "lexToken env s =
           Some (if reallyAtEnd s then (EndOfFile, NoData, advance s 1)
                 else (Unknown, IdentifierInfo (lexeme (advance s 1)) UnknownId,
                       addError (advance s 1) EmbeddedNull))"
  using assms by (auto simp: lexToken_def Let_def reallyAtEnd_def advance_def)







section \<open>Termination\<close>

text \<open>
  The string literal loop and the block comment loop never return from a state whose
  cursor is at a NUL before \<open>sourceEnd\<close>: each round adds the EmbeddedNull error and
  leaves the cursor where it was.
\<close>

lemma lexStringLiteral_loop_stuck_aux:
  assumes "lexStringLiteral_loop s = Some y"
  shows "\<not> (peek s 0 = NUL \<and> \<not> reallyAtEnd s)"
proof (rule lexStringLiteral_loop.raw_induct
         [where P = "\<lambda>s y. \<not> (peek s 0 = NUL \<and> \<not> reallyAtEnd s)", OF _ assms],
       goal_cases)
  case (1 f s y)
  show ?case
  proof
    assume stuck: "peek s 0 = NUL \<and> \<not> reallyAtEnd s"
    with 1(2) have "f (addError s EmbeddedNull) = Some y"
      by (simp add: isNewline_def)
    from 1(1) [OF this] stuck show False
      by (simp add: peek_def addError_def reallyAtEnd_def)
  qed
qed

lemma lexStringLiteral_loop_stuck:
  "peek s 0 = NUL \<Longrightarrow> \<not> reallyAtEnd s \<Longrightarrow> lexStringLiteral_loop s = None"
  using lexStringLiteral_loop_stuck_aux [of s] by (cases "lexStringLiteral_loop s") auto

lemma scanBlockComment_loop_stuck_aux:
  assumes "scanBlockComment_loop eod s = Some y"
  shows "\<not> (peek s 0 = NUL \<and> \<not> reallyAtEnd s)"
proof (rule scanBlockComment_loop.raw_induct
         [where P = "\<lambda>eod s y. \<not> (peek s 0 = NUL \<and> \<not> reallyAtEnd s)", OF _ assms],
       goal_cases)
  case (1 f eod s y)
  show ?case
  proof
    assume stuck: "peek s 0 = NUL \<and> \<not> reallyAtEnd s"
    with 1(2) have "f eod (addError s EmbeddedNull) = Some y"
      by simp
    from 1(1) [OF this] stuck show False
      by (simp add: peek_def addError_def reallyAtEnd_def)
  qed
qed

lemma scanBlockComment_loop_stuck:
  "peek s 0 = NUL \<Longrightarrow> \<not> reallyAtEnd s \<Longrightarrow> scanBlockComment_loop eod s = None"
  using scanBlockComment_loop_stuck_aux [of eod s]
  by (cases "scanBlockComment_loop eod s") auto


text \<open>
  C2. The claim fails on the code: on a string literal that holds a NUL before the end
  of the buffer, and on a block comment that does, \<^verbatim>\<open>lex()\<close> never returns.
\<close>

theorem embedded_NUL_never_returns:
  "\<forall>env. Lexer_lex env (lexerOn [DQUOTE, NUL, DQUOTE]) = None
        \<and> Lexer_lex env (lexerOn [CHR ''/'', CHR ''*'', NUL, CHR ''*'', CHR ''/'']) = None"
proof (intro allI conjI)
  fix env
  have "lexStringLiteral_loop ((advance (mark (lexerOn [DQUOTE, NUL, DQUOTE])) 1)\<lparr>stringBuffer := []\<rparr>) = None"
    by (rule lexStringLiteral_loop_stuck) (simp_all add: eval_defs)
  then show "Lexer_lex env (lexerOn [DQUOTE, NUL, DQUOTE]) = None"
    by (simp add: Lexer_lex_def lexTrivia.simps lexToken_def lexStringLiteral_def eval_defs)
  have "scanBlockComment_loop False
          (advance (mark (lexerOn [CHR ''/'', CHR ''*'', NUL, CHR ''*'', CHR ''/''])) 2) = None"
    by (rule scanBlockComment_loop_stuck) (simp_all add: eval_defs)
  then show "Lexer_lex env (lexerOn [CHR ''/'', CHR ''*'', NUL, CHR ''*'', CHR ''/'']) = None"
    by (simp add: Lexer_lex_def lexTrivia.simps scanBlockComment_def eval_defs)
qed


section \<open>Directive mode\<close>

text \<open>
  In \<^verbatim>\<open>lexTrivia\<close> a backslash is never trivia, whatever the mode and whatever follows it:
  the test of line 871 reads the backslash itself, which is no newline.
\<close>

lemma lexTrivia_backslash:
  "peek s 0 = BACKSLASH \<Longrightarrow> lexTrivia s = Some (False, mark s)"
  by (subst lexTrivia.simps) (simp add: mark_def peek_def isNewline_def)


text \<open>
  C1. The claim fails on the code. In Directive mode, on a backslash right before a
  newline, \<^verbatim>\<open>lexTrivia\<close> returns at the backslash and consumes nothing; \<^verbatim>\<open>lex()\<close> then
  returns the backslash as an Unknown token with the EscapedWhitespace error; and on the
  newline that follows, \<^verbatim>\<open>lexTrivia\<close> returns true, its signal for the end of the directive.
\<close>

theorem backslash_newline_not_escaped:
  "lexTrivia ((lexerOn [BACKSLASH, LF, CHR ''X''])\<lparr>mode := DirectiveMode\<rparr>) =
     Some (False, (lexerOn [BACKSLASH, LF, CHR ''X''])\<lparr>mode := DirectiveMode\<rparr>)
   \<and> (\<forall>env. Lexer_lex env ((lexerOn [BACKSLASH, LF, CHR ''X''])\<lparr>mode := DirectiveMode\<rparr>) =
        Some (Inr (\<lparr>kind = Unknown, data = IdentifierInfo [BACKSLASH] UnknownId, trivia = []\<rparr>,
                   (lexerOn [BACKSLASH, LF, CHR ''X''])
                     \<lparr>mode := DirectiveMode, sourceBuffer := 1,
                      diagnostics := [EscapedWhitespace]\<rparr>)))
   \<and> lexTrivia ((lexerOn [BACKSLASH, LF, CHR ''X''])
                  \<lparr>mode := DirectiveMode, sourceBuffer := 1,
                   diagnostics := [EscapedWhitespace]\<rparr>) =
        Some (True, (lexerOn [BACKSLASH, LF, CHR ''X''])
                      \<lparr>mode := DirectiveMode, sourceBuffer := 2, marker := 1,
                       diagnostics := [EscapedWhitespace],
                       triviaBuffer := [Trivia EndOfLine [LF]]\<rparr>)"
  by (simp add: Lexer_lex_def lexTrivia.simps lexToken_def lexEscapeSequence_def eval_defs)


text \<open>
  C3. The claim fails on the code. \<^verbatim>\<open>lexToken\<close> never returns the EndOfDirective kind, and
  \<^verbatim>\<open>lex()\<close> drops the result of \<^verbatim>\<open>lexTrivia\<close>. After the directive of the first input, the
  newline is followed by the Plus token with no EndOfDirective between them, and the
  lexer is still in Directive mode. In the second input the newline inside the block
  comment adds SplitBlockCommentInDirective and sets the mode to Normal, and again no
  EndOfDirective token precedes the next token.
\<close>

theorem directive_newline_no_EndOfDirective:
  "(\<forall>env s d s'. lexToken env s \<noteq> Some (EndOfDirective, d, s'))
   \<and> (\<forall>cd. \<exists>ts s.
         pull \<lparr>getDirectiveKind = directiveTable, composeDouble = cd\<rparr> 4
              (lexerOn (''`define X 1'' @ [LF] @ ''+ 2'')) = Some (Inr (ts, s))
         \<and> map kind ts = [Directive, Identifier, IntegerLiteral, Plus]
         \<and> mode s = DirectiveMode \<and> diagnostics s = [])
   \<and> (\<forall>cd. \<exists>ts s.
         pull \<lparr>getDirectiveKind = directiveTable, composeDouble = cd\<rparr> 3
              (lexerOn (''`define X /*'' @ [LF] @ ''*/1'')) = Some (Inr (ts, s))
         \<and> map kind ts = [Directive, Identifier, IntegerLiteral]
         \<and> mode s = NormalMode \<and> diagnostics s = [SplitBlockCommentInDirective])"
proof (intro conjI allI)
  fix env s d s'
  show "lexToken env s \<noteq> Some (EndOfDirective, d, s')"
    using lexToken_not_EndOfDirective by blast
next
  fix cd
  define env where "env = \<lparr>getDirectiveKind = directiveTable, composeDouble = cd\<rparr>"
  define inp where "inp = ''`define X 1'' @ [LF] @ ''+ 2''"
  define s1 where "s1 = (lexerOn inp)\<lparr>sourceBuffer := 7, mode := DirectiveMode\<rparr>"
  define s2 where "s2 = s1\<lparr>sourceBuffer := 9, marker := 8,
                            triviaBuffer := [Trivia Whitespace '' '']\<rparr>"
  define s3 where "s3 = s2\<lparr>sourceBuffer := 11, marker := 10\<rparr>"
  define s4 where "s4 = s3\<lparr>sourceBuffer := 13, marker := 12,
                            triviaBuffer := [Trivia EndOfLine [LF]]\<rparr>"
  have l1: "Lexer_lex env (lexerOn inp) =
              Some (Inr (\<lparr>kind = Directive, data = DirectiveInfo ''`define'' DefineDirective,
                          trivia = []\<rparr>, s1))"
    by (simp add: env_def inp_def s1_def directiveTable_def lex_eval)
  have l2: "Lexer_lex env s1 =
              Some (Inr (\<lparr>kind = Identifier, data = IdentifierInfo ''X'' NormalId,
                          trivia = [Trivia Whitespace '' '']\<rparr>, s2))"
    by (simp add: env_def inp_def s1_def s2_def lex_eval)
  have l3: "Lexer_lex env s2 =
              Some (Inr (\<lparr>kind = IntegerLiteral,
                          data = NumericLiteralInfo ''1'' (IntValue 1),
                          trivia = [Trivia Whitespace '' '']\<rparr>, s3))"
    by (simp add: env_def inp_def s1_def s2_def s3_def lex_eval)
  have l4: "Lexer_lex env s3 =
              Some (Inr (\<lparr>kind = Plus, data = NoData,
                          trivia = [Trivia EndOfLine [LF]]\<rparr>, s4))"
    by (simp add: env_def inp_def s1_def s2_def s3_def s4_def lex_eval)
  have "pull env 4 (lexerOn inp) =
          Some (Inr ([\<lparr>kind = Directive, data = DirectiveInfo ''`define'' DefineDirective,
                        trivia = []\<rparr>,
                      \<lparr>kind = Identifier, data = IdentifierInfo ''X'' NormalId,
                        trivia = [Trivia Whitespace '' '']\<rparr>,
                      \<lparr>kind = IntegerLiteral, data = NumericLiteralInfo ''1'' (IntValue 1),
                        trivia = [Trivia Whitespace '' '']\<rparr>,
                      \<lparr>kind = Plus, data = NoData, trivia = [Trivia EndOfLine [LF]]\<rparr>], s4))"
    by (simp add: eval_nat_numeral l1 l2 l3 l4)
  moreover have "mode s4 = DirectiveMode \<and> diagnostics s4 = []"
    by (simp add: s4_def s3_def s2_def s1_def lexerOn_def)
  ultimately show "\<exists>ts s.
         pull \<lparr>getDirectiveKind = directiveTable, composeDouble = cd\<rparr> 4
              (lexerOn (''`define X 1'' @ [LF] @ ''+ 2'')) = Some (Inr (ts, s))
         \<and> map kind ts = [Directive, Identifier, IntegerLiteral, Plus]
         \<and> mode s = DirectiveMode \<and> diagnostics s = []"
    unfolding env_def inp_def by simp
next
  fix cd
  define env where "env = \<lparr>getDirectiveKind = directiveTable, composeDouble = cd\<rparr>"
  define inp where "inp = ''`define X /*'' @ [LF] @ ''*/1''"
  define s1 where "s1 = (lexerOn inp)\<lparr>sourceBuffer := 7, mode := DirectiveMode\<rparr>"
  define s2 where "s2 = s1\<lparr>sourceBuffer := 9, marker := 8,
                            triviaBuffer := [Trivia Whitespace '' '']\<rparr>"
  define s3 where "s3 = s2\<lparr>sourceBuffer := 16, marker := 15, mode := NormalMode,
                            diagnostics := [SplitBlockCommentInDirective],
                            triviaBuffer := [Trivia Whitespace '' '',
                                             Trivia BlockComment (''/*'' @ [LF] @ ''*/'')]\<rparr>"
  have l1: "Lexer_lex env (lexerOn inp) =
              Some (Inr (\<lparr>kind = Directive, data = DirectiveInfo ''`define'' DefineDirective,
                          trivia = []\<rparr>, s1))"
    by (simp add: env_def inp_def s1_def directiveTable_def lex_eval)
  have l2: "Lexer_lex env s1 =
              Some (Inr (\<lparr>kind = Identifier, data = IdentifierInfo ''X'' NormalId,
                          trivia = [Trivia Whitespace '' '']\<rparr>, s2))"
    by (simp add: env_def inp_def s1_def s2_def lex_eval)
  have l3: "Lexer_lex env s2 =
              Some (Inr (\<lparr>kind = IntegerLiteral,
                          data = NumericLiteralInfo ''1'' (IntValue 1),
                          trivia = [Trivia Whitespace '' '',
                                    Trivia BlockComment (''/*'' @ [LF] @ ''*/'')]\<rparr>, s3))"
    by (simp add: env_def inp_def s1_def s2_def s3_def lex_eval)
  have "pull env 3 (lexerOn inp) =
          Some (Inr ([\<lparr>kind = Directive, data = DirectiveInfo ''`define'' DefineDirective,
                        trivia = []\<rparr>,
                      \<lparr>kind = Identifier, data = IdentifierInfo ''X'' NormalId,
                        trivia = [Trivia Whitespace '' '']\<rparr>,
                      \<lparr>kind = IntegerLiteral, data = NumericLiteralInfo ''1'' (IntValue 1),
                        trivia = [Trivia Whitespace '' '',
                                  Trivia BlockComment (''/*'' @ [LF] @ ''*/'')]\<rparr>], s3))"
    by (simp add: eval_nat_numeral l1 l2 l3)
  moreover have "mode s3 = NormalMode \<and> diagnostics s3 = [SplitBlockCommentInDirective]"
    by (simp add: s3_def)
  ultimately show "\<exists>ts s.
         pull \<lparr>getDirectiveKind = directiveTable, composeDouble = cd\<rparr> 3
              (lexerOn (''`define X /*'' @ [LF] @ ''*/1'')) = Some (Inr (ts, s))
         \<and> map kind ts = [Directive, Identifier, IntegerLiteral]
         \<and> mode s = NormalMode \<and> diagnostics s = [SplitBlockCommentInDirective]"
    unfolding env_def inp_def by simp
qed

section \<open>Integer literals\<close>

text \<open>The two inputs of the spec's scenario 1: the clamp of lines 634-637.\<close>

lemma integer_literal_examples:
  "\<forall>env.
     Lexer_lex env (lexerOn ''2147483648'') =
       Some (Inr (\<lparr>kind = IntegerLiteral,
                   data = NumericLiteralInfo ''2147483648'' (IntValue 0x7FFFFFFF),
                   trivia = []\<rparr>,
                  addError (advance (lexerOn ''2147483648'') 10) SignedLiteralTooLarge))
   \<and> Lexer_lex env (lexerOn ''2147483647'') =
       Some (Inr (\<lparr>kind = IntegerLiteral,
                   data = NumericLiteralInfo ''2147483647'' (IntValue 2147483647),
                   trivia = []\<rparr>,
                  advance (lexerOn ''2147483647'') 10))"
  by (simp add: lex_eval)

text \<open>
  C4. The claim fails on the code. The leading zeros that follow an underscore are
  counted as mantissa digits (lines 583-584 skip only the zeros before it), so the 1 of
  the first input is the nineteenth digit and is dropped: the stored value is 0, not 1.
  In the second input the value exceeds \<^verbatim>\<open>INT32_MAX\<close>; the stored value is 0 and
  SignedLiteralTooLarge is not added.
\<close>

theorem integer_literal_zeros_after_underscore:
  "\<forall>env.
     Lexer_lex env (lexerOn ''0_0000000000000000001'') =
       Some (Inr (\<lparr>kind = IntegerLiteral,
                   data = NumericLiteralInfo ''0_0000000000000000001'' (IntValue 0),
                   trivia = []\<rparr>,
                  advance (lexerOn ''0_0000000000000000001'') 21))
   \<and> diagnostics (advance (lexerOn ''0_0000000000000000001'') 21) = []
   \<and> Lexer_lex env (lexerOn ''0_0000000000000000009999999999'') =
       Some (Inr (\<lparr>kind = IntegerLiteral,
                   data = NumericLiteralInfo ''0_0000000000000000009999999999'' (IntValue 0),
                   trivia = []\<rparr>,
                  advance (lexerOn ''0_0000000000000000009999999999'') 30))
   \<and> diagnostics (advance (lexerOn ''0_0000000000000000009999999999'') 30) = []"
  by (simp add: lex_eval)



section \<open>String literals: escape sequences\<close>

text \<open>At a backslash the loop runs the escape switch and goes on from the state it leaves.\<close>

lemma lexStringLiteral_loop_escape:
  "peek s 0 = BACKSLASH \<Longrightarrow>
     lexStringLiteral_loop s = lexStringLiteral_loop (lexStringLiteral_escape s)"
  by (subst lexStringLiteral_loop.simps) simp

lemmas string_eval =
  lexStringLiteral_def lexStringLiteral_loop.simps lexStringLiteral_escape_def






text \<open>
  C7, as the claim states it, fails at an escaped newline: it is none of the escapes the
  claim lists, and it is neither diagnosed nor passed through. In the string literal made
  of a backslash and a newline the escape consumes both bytes, the decoded string is
  empty and no diagnostic is added.
\<close>

theorem unknown_escape_newline_counterexample:
  "peek (advance (lexerOn [DQUOTE, BACKSLASH, LF, DQUOTE]) 1) 0 = BACKSLASH
   \<and> peek (advance (lexerOn [DQUOTE, BACKSLASH, LF, DQUOTE]) 1) 1 = LF
   \<and> lexStringLiteral_escape (advance (lexerOn [DQUOTE, BACKSLASH, LF, DQUOTE]) 1)
       = advance (lexerOn [DQUOTE, BACKSLASH, LF, DQUOTE]) 3
   \<and> lexStringLiteral (advance (lexerOn [DQUOTE, BACKSLASH, LF, DQUOTE]) 1)
       = Some (StringLiteralInfo [DQUOTE, BACKSLASH, LF, DQUOTE] [],
               advance (lexerOn [DQUOTE, BACKSLASH, LF, DQUOTE]) 4)
   \<and> diagnostics (advance (lexerOn [DQUOTE, BACKSLASH, LF, DQUOTE]) 4) = []"
  by (simp add: string_eval eval_defs)


text \<open>
  C7, amended. The escape switch maps \<^verbatim>\<open>\n \t \\ \" \v \f \a\<close> to the newline, tab,
  backslash, double quote, vertical tab, form feed and bell bytes; a backslash and one to
  three octal digits to the byte of that octal value, where three digits with a value
  above 255 add OctalEscapeCodeTooBig; \<^verbatim>\<open>\x\<close> and one or two hex digits to the byte of that
  value, where a missing hex digit adds InvalidHexEscapeCode and passes the byte through;
  a backslash before a newline, or before a carriage return and its optional newline, to
  nothing, with no diagnostic; and every other escaped byte adds UnknownEscapeCode and is
  passed through. The string literal \<^verbatim>\<open>"a\n\x4A\101"\<close> decodes to a, newline, J, A with no
  diagnostic, and \<^verbatim>\<open>"\9"\<close> decodes to 9 with UnknownEscapeCode.
\<close>

theorem string_escape_decoding:
  "(peek s 0 = BACKSLASH \<longrightarrow>
      lexStringLiteral_loop s = lexStringLiteral_loop (lexStringLiteral_escape s))
   \<and> (peek s 1 = CHR ''n'' \<longrightarrow> lexStringLiteral_escape s = appendString (advance s 2) LF)
   \<and> (peek s 1 = CHR ''t'' \<longrightarrow> lexStringLiteral_escape s = appendString (advance s 2) TAB)
   \<and> (peek s 1 = BACKSLASH \<longrightarrow>
        lexStringLiteral_escape s = appendString (advance s 2) BACKSLASH)
   \<and> (peek s 1 = DQUOTE \<longrightarrow> lexStringLiteral_escape s = appendString (advance s 2) DQUOTE)
   \<and> (peek s 1 = CHR ''v'' \<longrightarrow> lexStringLiteral_escape s = appendString (advance s 2) VT)
   \<and> (peek s 1 = CHR ''f'' \<longrightarrow> lexStringLiteral_escape s = appendString (advance s 2) FF)
   \<and> (peek s 1 = CHR ''a'' \<longrightarrow> lexStringLiteral_escape s = appendString (advance s 2) BEL)
   \<and> (isOctalDigit (peek s 1) \<longrightarrow>
        lexStringLiteral_escape s =
          (if isOctalDigit (peek s 2) then
             (if isOctalDigit (peek s 3) then
                (if 255 < (getDigitValue (peek s 1) * 8 + getDigitValue (peek s 2)) * 8
                            + getDigitValue (peek s 3)
                 then addError (advance s 4) OctalEscapeCodeTooBig
                 else appendString (advance s 4)
                        (char_of ((getDigitValue (peek s 1) * 8 + getDigitValue (peek s 2)) * 8
                                    + getDigitValue (peek s 3))))
              else appendString (advance s 3)
                     (char_of (getDigitValue (peek s 1) * 8 + getDigitValue (peek s 2))))
           else appendString (advance s 2) (char_of (getDigitValue (peek s 1)))))
   \<and> (peek s 1 = CHR ''x'' \<longrightarrow>
        lexStringLiteral_escape s =
          (if isHexDigit (peek s 2) then
             (if isHexDigit (peek s 3) then
                appendString (advance s 4)
                  (char_of (getHexDigitValue (peek s 2) * 16 + getHexDigitValue (peek s 3)))
              else appendString (advance s 3) (char_of (getHexDigitValue (peek s 2))))
           else appendString (addError (advance s 3) InvalidHexEscapeCode) (peek s 2)))
   \<and> (peek s 1 = LF \<longrightarrow> lexStringLiteral_escape s = advance s 2)
   \<and> (peek s 1 = CR \<longrightarrow>
        lexStringLiteral_escape s = advance s (if peek s 2 = LF then 3 else 2))
   \<and> (peek s 1 \<notin> {CHR ''n'', CHR ''t'', BACKSLASH, DQUOTE, CHR ''v'', CHR ''f'', CHR ''a'',
                     CHR ''x'', LF, CR} \<and> \<not> isOctalDigit (peek s 1) \<longrightarrow>
        lexStringLiteral_escape s
          = appendString (addError (advance s 2) UnknownEscapeCode) (peek s 1))
   \<and> (\<forall>env. Lexer_lex env (lexerOn (DQUOTE # CHR ''a'' # BACKSLASH # CHR ''n'' # BACKSLASH
                                     # ''x4A'' @ BACKSLASH # ''101'' @ [DQUOTE])) =
          Some (Inr (\<lparr>kind = StringLiteral,
                      data = StringLiteralInfo
                               (DQUOTE # CHR ''a'' # BACKSLASH # CHR ''n'' # BACKSLASH
                                  # ''x4A'' @ BACKSLASH # ''101'' @ [DQUOTE])
                               [CHR ''a'', LF, CHR ''J'', CHR ''A''],
                      trivia = []\<rparr>,
                     (lexerOn (DQUOTE # CHR ''a'' # BACKSLASH # CHR ''n'' # BACKSLASH
                                  # ''x4A'' @ BACKSLASH # ''101'' @ [DQUOTE]))
                       \<lparr>sourceBuffer := 13,
                        stringBuffer := [CHR ''a'', LF, CHR ''J'', CHR ''A'']\<rparr>)))
   \<and> (\<forall>env. Lexer_lex env (lexerOn (DQUOTE # BACKSLASH # ''9'' @ [DQUOTE])) =
          Some (Inr (\<lparr>kind = StringLiteral,
                      data = StringLiteralInfo (DQUOTE # BACKSLASH # ''9'' @ [DQUOTE]) ''9'',
                      trivia = []\<rparr>,
                     (lexerOn (DQUOTE # BACKSLASH # ''9'' @ [DQUOTE]))
                       \<lparr>sourceBuffer := 4, diagnostics := [UnknownEscapeCode],
                        stringBuffer := ''9''\<rparr>)))"
proof (intro conjI impI allI)
  show "lexStringLiteral_loop s = lexStringLiteral_loop (lexStringLiteral_escape s)"
    if "peek s 0 = BACKSLASH"
    using that by (rule lexStringLiteral_loop_escape)
  show "lexStringLiteral_escape s = appendString (advance s 2) LF" if "peek s 1 = CHR ''n''"
    using that by (simp add: lexStringLiteral_escape_def Let_def)
  show "lexStringLiteral_escape s = appendString (advance s 2) TAB" if "peek s 1 = CHR ''t''"
    using that by (simp add: lexStringLiteral_escape_def Let_def)
  show "lexStringLiteral_escape s = appendString (advance s 2) BACKSLASH"
    if "peek s 1 = BACKSLASH"
    using that by (simp add: lexStringLiteral_escape_def Let_def)
  show "lexStringLiteral_escape s = appendString (advance s 2) DQUOTE" if "peek s 1 = DQUOTE"
    using that by (simp add: lexStringLiteral_escape_def Let_def)
  show "lexStringLiteral_escape s = appendString (advance s 2) VT" if "peek s 1 = CHR ''v''"
    using that by (simp add: lexStringLiteral_escape_def Let_def)
  show "lexStringLiteral_escape s = appendString (advance s 2) FF" if "peek s 1 = CHR ''f''"
    using that by (simp add: lexStringLiteral_escape_def Let_def)
  show "lexStringLiteral_escape s = appendString (advance s 2) BEL" if "peek s 1 = CHR ''a''"
    using that by (simp add: lexStringLiteral_escape_def Let_def)
  show "lexStringLiteral_escape s =
          (if isOctalDigit (peek s 2) then
             (if isOctalDigit (peek s 3) then
                (if 255 < (getDigitValue (peek s 1) * 8 + getDigitValue (peek s 2)) * 8
                            + getDigitValue (peek s 3)
                 then addError (advance s 4) OctalEscapeCodeTooBig
                 else appendString (advance s 4)
                        (char_of ((getDigitValue (peek s 1) * 8 + getDigitValue (peek s 2)) * 8
                                    + getDigitValue (peek s 3))))
              else appendString (advance s 3)
                     (char_of (getDigitValue (peek s 1) * 8 + getDigitValue (peek s 2))))
           else appendString (advance s 2) (char_of (getDigitValue (peek s 1))))"
    if o: "isOctalDigit (peek s 1)"
  proof -
    have "peek s 1 \<noteq> CHR ''n''" "peek s 1 \<noteq> CHR ''t''" "peek s 1 \<noteq> BACKSLASH"
      "peek s 1 \<noteq> DQUOTE" "peek s 1 \<noteq> CHR ''v''" "peek s 1 \<noteq> CHR ''f''"
      "peek s 1 \<noteq> CHR ''a''" "peek s 1 \<noteq> LF" "peek s 1 \<noteq> CR"
      using o by (auto simp: isOctalDigit_def code_def)
    with o show ?thesis
      by (simp add: lexStringLiteral_escape_def Let_def)
  qed
  show "lexStringLiteral_escape s =
          (if isHexDigit (peek s 2) then
             (if isHexDigit (peek s 3) then
                appendString (advance s 4)
                  (char_of (getHexDigitValue (peek s 2) * 16 + getHexDigitValue (peek s 3)))
              else appendString (advance s 3) (char_of (getHexDigitValue (peek s 2))))
           else appendString (addError (advance s 3) InvalidHexEscapeCode) (peek s 2))"
    if "peek s 1 = CHR ''x''"
    using that by (simp add: lexStringLiteral_escape_def Let_def isOctalDigit_def code_def)
  show "lexStringLiteral_escape s = advance s 2" if "peek s 1 = LF"
    using that by (simp add: lexStringLiteral_escape_def Let_def)
  show "lexStringLiteral_escape s = advance s (if peek s 2 = LF then 3 else 2)"
    if "peek s 1 = CR"
    using that by (simp add: lexStringLiteral_escape_def Let_def consume_def)
  show "lexStringLiteral_escape s
          = appendString (addError (advance s 2) UnknownEscapeCode) (peek s 1)"
    if "peek s 1 \<notin> {CHR ''n'', CHR ''t'', BACKSLASH, DQUOTE, CHR ''v'', CHR ''f'', CHR ''a'',
                      CHR ''x'', LF, CR} \<and> \<not> isOctalDigit (peek s 1)"
    using that by (simp add: lexStringLiteral_escape_def Let_def)
qed (simp_all add: lex_eval string_eval char_of_eq_iff)


text \<open>The escapes \<^verbatim>\<open>\n\<close>, \<^verbatim>\<open>\9\<close>, \<^verbatim>\<open>\xg\<close> and \<^verbatim>\<open>\101\<close>, each from the state at its backslash.\<close>

theorem string_escape_decoding_witness:
  "lexStringLiteral_escape (advance (lexerOn (DQUOTE # BACKSLASH # ''n'' @ [DQUOTE])) 1)
     = (lexerOn (DQUOTE # BACKSLASH # ''n'' @ [DQUOTE]))\<lparr>sourceBuffer := 3, stringBuffer := [LF]\<rparr>
   \<and> lexStringLiteral_escape (advance (lexerOn (DQUOTE # BACKSLASH # ''9'' @ [DQUOTE])) 1)
     = (lexerOn (DQUOTE # BACKSLASH # ''9'' @ [DQUOTE]))
         \<lparr>sourceBuffer := 3, diagnostics := [UnknownEscapeCode], stringBuffer := ''9''\<rparr>
   \<and> lexStringLiteral_escape (advance (lexerOn (DQUOTE # BACKSLASH # ''xg'' @ [DQUOTE])) 1)
     = (lexerOn (DQUOTE # BACKSLASH # ''xg'' @ [DQUOTE]))
         \<lparr>sourceBuffer := 4, diagnostics := [InvalidHexEscapeCode], stringBuffer := ''g''\<rparr>
   \<and> lexStringLiteral_escape (advance (lexerOn (DQUOTE # BACKSLASH # ''101'' @ [DQUOTE])) 1)
     = (lexerOn (DQUOTE # BACKSLASH # ''101'' @ [DQUOTE]))
         \<lparr>sourceBuffer := 5, stringBuffer := ''A''\<rparr>"
proof (intro conjI)
  show "lexStringLiteral_escape (advance (lexerOn (DQUOTE # BACKSLASH # ''n'' @ [DQUOTE])) 1)
     = (lexerOn (DQUOTE # BACKSLASH # ''n'' @ [DQUOTE]))\<lparr>sourceBuffer := 3, stringBuffer := [LF]\<rparr>"
    using string_escape_decoding [of "advance (lexerOn (DQUOTE # BACKSLASH # ''n'' @ [DQUOTE])) 1"]
    by (simp add: eval_defs)
  show "lexStringLiteral_escape (advance (lexerOn (DQUOTE # BACKSLASH # ''9'' @ [DQUOTE])) 1)
     = (lexerOn (DQUOTE # BACKSLASH # ''9'' @ [DQUOTE]))
         \<lparr>sourceBuffer := 3, diagnostics := [UnknownEscapeCode], stringBuffer := ''9''\<rparr>"
    using string_escape_decoding [of "advance (lexerOn (DQUOTE # BACKSLASH # ''9'' @ [DQUOTE])) 1"]
    by (simp add: eval_defs)
  show "lexStringLiteral_escape (advance (lexerOn (DQUOTE # BACKSLASH # ''xg'' @ [DQUOTE])) 1)
     = (lexerOn (DQUOTE # BACKSLASH # ''xg'' @ [DQUOTE]))
         \<lparr>sourceBuffer := 4, diagnostics := [InvalidHexEscapeCode], stringBuffer := ''g''\<rparr>"
    using string_escape_decoding [of "advance (lexerOn (DQUOTE # BACKSLASH # ''xg'' @ [DQUOTE])) 1"]
    by (simp add: eval_defs)
  show "lexStringLiteral_escape (advance (lexerOn (DQUOTE # BACKSLASH # ''101'' @ [DQUOTE])) 1)
     = (lexerOn (DQUOTE # BACKSLASH # ''101'' @ [DQUOTE]))
         \<lparr>sourceBuffer := 5, stringBuffer := ''A''\<rparr>"
    using string_escape_decoding [of "advance (lexerOn (DQUOTE # BACKSLASH # ''101'' @ [DQUOTE])) 1"]
    by (simp add: eval_defs char_of_eq_iff)
qed


section \<open>Sized vector literals\<close>

text \<open>
  The digit loop changes neither the diagnostics nor the size and the signedness the
  vector builder was started with; \<^verbatim>\<open>lexVectorDigits\<close> adds at most MissingVectorDigits.
\<close>

lemma addDigit_fields:
  "diagnostics (addDigit s d) = diagnostics s"
  "vecSized (vectorBuilder (addDigit s d)) = vecSized (vectorBuilder s)"
  "vecSize (vectorBuilder (addDigit s d)) = vecSize (vectorBuilder s)"
  "vecSigned (vectorBuilder (addDigit s d)) = vecSigned (vectorBuilder s)"
  by (simp_all add: addDigit_def vb_addDigit_def)

lemma lexVectorDigits_loop_keeps:
  "diagnostics (lexVectorDigits_loop b s) = diagnostics s
   \<and> vecSized (vectorBuilder (lexVectorDigits_loop b s)) = vecSized (vectorBuilder s)
   \<and> vecSize (vectorBuilder (lexVectorDigits_loop b s)) = vecSize (vectorBuilder s)
   \<and> vecSigned (vectorBuilder (lexVectorDigits_loop b s)) = vecSigned (vectorBuilder s)"
proof (induction b s rule: lexVectorDigits_loop.induct)
  case (1 b s)
  show ?case
    by (subst (1 2 3 4) lexVectorDigits_loop.simps)
       (use 1 in \<open>simp add: advance_fields addDigit_fields\<close>)
qed

lemma lexVectorDigits_keeps:
  "diagnostics (snd (lexVectorDigits b s)) =
     diagnostics s @
       (if \<not> IsDigitFunc b (peek s (findNextNonWhitespace s))
           \<and> \<not> isLogicDigit (peek s (findNextNonWhitespace s))
        then [MissingVectorDigits] else [])
   \<and> vecSized (vectorBuilder (snd (lexVectorDigits b s))) = vecSized (vectorBuilder s)
   \<and> vecSize (vectorBuilder (snd (lexVectorDigits b s))) = vecSize (vectorBuilder s)
   \<and> vecSigned (vectorBuilder (snd (lexVectorDigits b s))) = vecSigned (vectorBuilder s)"
  by (simp add: lexVectorDigits_def Let_def lexVectorDigits_loop_keeps advance_fields
                addError_fields)

text \<open>The coercion of the size to 32 bits (lines 705-714) is the minimum with \<^verbatim>\<open>UINT32_MAX\<close>.\<close>

lemma clamp32:
  "unat (if size64 = 0 then (0 :: 32 word)
         else if (0xFFFFFFFF :: 64 word) < size64 then ucast (0xFFFFFFFF :: 64 word)
         else ucast size64)
     = min (unat size64) 4294967295"
proof (cases "(0xFFFFFFFF :: 64 word) < size64")
  case True
  then have "4294967295 < unat size64"
    by (simp add: word_less_nat_alt)
  with True show ?thesis by auto
next
  case False
  then have le: "unat size64 \<le> 4294967295"
    by (simp add: word_less_nat_alt not_less)
  then have "unat (ucast size64 :: 32 word) = unat size64"
    by (simp add: unsigned_ucast_eq take_bit_nat_eq_self)
  with False le show ?thesis by auto
qed



lemmas vector_eval =
  lexVectorLiteral_def lexVectorDigits_def lexVectorDigits_loop.simps baseOf_def
  addDigit_def vb_start_def vb_addDigit_def vb_toVector_def vb_startUnsized_def


text \<open>
  What \<^verbatim>\<open>lexVectorLiteral\<close> does with the number it is called with, at the lexer after
  the apostrophe. The vector is signed exactly when the next byte is s or S; its size is
  that number clamped to \<^verbatim>\<open>UINT32_MAX\<close>, where 0 adds IntegerSizeZero and a number above
  \<^verbatim>\<open>UINT32_MAX\<close> adds IntegerSizeTooLarge, before every later diagnostic; the byte after
  the optional s is the base: d D select decimal, o O octal, h H hex, b B binary, the
  digits being scanned by \<^verbatim>\<open>lexVectorDigits\<close> at that base from right after the letter with
  an empty digit array, and every other byte adds MissingVectorBase. The number is the
  value that \<^verbatim>\<open>scanUnsignedNumber\<close> has accumulated (lines 590, 597 and 604), which need not be
  the size that is written in the literal: see the theorem of this section.
\<close>

lemma lexVectorLiteral_scanned_size:
  "(let isSigned = (peek s 0 = CHR ''s'' \<or> peek s 0 = CHR ''S'');
        c = peek s (if isSigned then 1 else 0);
        sizeDiag = (if size64 = 0 then [IntegerSizeZero]
                    else if 0xFFFFFFFF < size64 then [IntegerSizeTooLarge] else []);
        r = lexVectorLiteral size64 s
    in vecSized (vectorBuilder (snd r))
     \<and> vecSigned (vectorBuilder (snd r)) = isSigned
     \<and> unat (vecSize (vectorBuilder (snd r))) = min (unat size64) 4294967295
     \<and> (baseOf c = None \<longrightarrow>
          fst r = NumericLiteralInfo (lexeme (advance s (if isSigned then 1 else 0))) (IntValue 0)
          \<and> diagnostics (snd r) = diagnostics s @ sizeDiag @ [MissingVectorBase])
     \<and> (\<forall>b. baseOf c = Some b \<longrightarrow>
          (\<exists>t. r = lexVectorDigits b t
               \<and> source t = source s
               \<and> sourceBuffer t = sourceBuffer s + (if isSigned then 2 else 1)
               \<and> vecDigits (vectorBuilder t) = [])
          \<and> (\<exists>rest. diagnostics (snd r) = diagnostics s @ sizeDiag @ rest
                     \<and> set rest \<subseteq> {MissingVectorDigits})))
   \<and> map baseOf ''dDoOhHbB'' =
        [Some DecimalBase, Some DecimalBase, Some OctalBase, Some OctalBase,
         Some HexBase, Some HexBase, Some BinaryBase, Some BinaryBase]
   \<and> (\<forall>c. (baseOf c = None) = (c \<notin> set ''dDoOhHbB''))"
proof (intro conjI)
  have peek_vb: "\<And>t v k. peek (t\<lparr>vectorBuilder := v\<rparr>) k = peek t k"
    by (simp add: peek_def)
  have lexeme_vb: "\<And>t v. lexeme (t\<lparr>vectorBuilder := v\<rparr>) = lexeme t"
    by (simp add: lexeme_def lexemeLength_def)
  have lexeme_err: "\<And>t d. lexeme (addError t d) = lexeme t"
    by (simp add: lexeme_def lexemeLength_def addError_fields)
  note simps = lexVectorLiteral_def Let_def lexVectorDigits_keeps advance_fields
    addError_fields peek_vb lexeme_vb lexeme_err vb_start_def
  have sized: "vecSized (vectorBuilder (snd (lexVectorLiteral size64 s)))"
    by (simp add: simps split: option.split)
  have signed: "vecSigned (vectorBuilder (snd (lexVectorLiteral size64 s)))
                  = (peek s 0 = CHR ''s'' \<or> peek s 0 = CHR ''S'')"
    by (simp add: simps split: option.split)
  have size: "vecSize (vectorBuilder (snd (lexVectorLiteral size64 s)))
                = (if size64 = 0 then (0 :: 32 word)
                   else if (0xFFFFFFFF :: 64 word) < size64 then ucast (0xFFFFFFFF :: 64 word)
                   else ucast size64)"
    by (simp add: simps split: option.split)
  have size': "unat (vecSize (vectorBuilder (snd (lexVectorLiteral size64 s))))
                 = min (unat size64) 4294967295"
    unfolding size by (rule clamp32)
  show "(let isSigned = (peek s 0 = CHR ''s'' \<or> peek s 0 = CHR ''S'');
        c = peek s (if isSigned then 1 else 0);
        sizeDiag = (if size64 = 0 then [IntegerSizeZero]
                    else if 0xFFFFFFFF < size64 then [IntegerSizeTooLarge] else []);
        r = lexVectorLiteral size64 s
    in vecSized (vectorBuilder (snd r))
     \<and> vecSigned (vectorBuilder (snd r)) = isSigned
     \<and> unat (vecSize (vectorBuilder (snd r))) = min (unat size64) 4294967295
     \<and> (baseOf c = None \<longrightarrow>
          fst r = NumericLiteralInfo (lexeme (advance s (if isSigned then 1 else 0))) (IntValue 0)
          \<and> diagnostics (snd r) = diagnostics s @ sizeDiag @ [MissingVectorBase])
     \<and> (\<forall>b. baseOf c = Some b \<longrightarrow>
          (\<exists>t. r = lexVectorDigits b t
               \<and> source t = source s
               \<and> sourceBuffer t = sourceBuffer s + (if isSigned then 2 else 1)
               \<and> vecDigits (vectorBuilder t) = [])
          \<and> (\<exists>rest. diagnostics (snd r) = diagnostics s @ sizeDiag @ rest
                     \<and> set rest \<subseteq> {MissingVectorDigits})))"
    unfolding Let_def
  proof (intro conjI impI allI)
    show "vecSized (vectorBuilder (snd (lexVectorLiteral size64 s)))"
      by (rule sized)
    show "vecSigned (vectorBuilder (snd (lexVectorLiteral size64 s)))
            = (peek s 0 = CHR ''s'' \<or> peek s 0 = CHR ''S'')"
      by (rule signed)
    show "unat (vecSize (vectorBuilder (snd (lexVectorLiteral size64 s))))
            = min (unat size64) 4294967295"
      by (rule size')
  next
    assume "baseOf (peek s (if peek s 0 = CHR ''s'' \<or> peek s 0 = CHR ''S'' then 1 else 0)) = None"
    then show "fst (lexVectorLiteral size64 s) =
        NumericLiteralInfo
          (lexeme (advance s (if peek s 0 = CHR ''s'' \<or> peek s 0 = CHR ''S'' then 1 else 0)))
          (IntValue 0)"
      and "diagnostics (snd (lexVectorLiteral size64 s)) =
        diagnostics s @
        (if size64 = 0 then [IntegerSizeZero]
         else if 0xFFFFFFFF < size64 then [IntegerSizeTooLarge] else []) @
        [MissingVectorBase]"
      by (auto simp: simps lexeme_def lexemeLength_def split: if_splits)
  next
    fix b
    assume b: "baseOf (peek s (if peek s 0 = CHR ''s'' \<or> peek s 0 = CHR ''S'' then 1 else 0))
                 = Some b"
    define s1 where "s1 = (if size64 = 0 then addError s IntegerSizeZero
                         else if 0xFFFFFFFF < size64 then addError s IntegerSizeTooLarge
                         else s)"
    define t where "t = advance
          ((advance s1 (if peek s 0 = CHR ''s'' \<or> peek s 0 = CHR ''S'' then 1 else 0))
             \<lparr>vectorBuilder := vb_start
                (if size64 = 0 then (0 :: 32 word)
                 else if (0xFFFFFFFF :: 64 word) < size64 then ucast (0xFFFFFFFF :: 64 word)
                 else ucast size64)
                (peek s 0 = CHR ''s'' \<or> peek s 0 = CHR ''S'')\<rparr>) 1"
    have "lexVectorLiteral size64 s = lexVectorDigits b t"
      using b
      by (auto simp: lexVectorLiteral_def Let_def t_def s1_def advance_def addError_def peek_def
               split: if_splits)
    moreover have "source t = source s"
      and "sourceBuffer t = sourceBuffer s
             + (if peek s 0 = CHR ''s'' \<or> peek s 0 = CHR ''S'' then 2 else 1)"
      and "vecDigits (vectorBuilder t) = []"
      by (simp_all add: t_def s1_def advance_fields addError_fields vb_start_def)
    ultimately show "\<exists>t. lexVectorLiteral size64 s = lexVectorDigits b t
               \<and> source t = source s
               \<and> sourceBuffer t = sourceBuffer s
                    + (if peek s 0 = CHR ''s'' \<or> peek s 0 = CHR ''S'' then 2 else 1)
               \<and> vecDigits (vectorBuilder t) = []"
      by blast
    show "\<exists>rest. diagnostics (snd (lexVectorLiteral size64 s)) =
            diagnostics s @
            (if size64 = 0 then [IntegerSizeZero]
             else if 0xFFFFFFFF < size64 then [IntegerSizeTooLarge] else []) @ rest
          \<and> set rest \<subseteq> {MissingVectorDigits}"
      using b by (auto simp: simps split: if_splits)
  qed
  show "map baseOf ''dDoOhHbB'' =
        [Some DecimalBase, Some DecimalBase, Some OctalBase, Some OctalBase,
         Some HexBase, Some HexBase, Some BinaryBase, Some BinaryBase]"
    by (simp add: baseOf_def)
  show "\<forall>c. (baseOf c = None) = (c \<notin> set ''dDoOhHbB'')"
    by (auto simp: baseOf_def)
qed


text \<open>
  Runs of the public operation on literals whose size is accumulated in full. The spec's
  example \<^verbatim>\<open>4'sb10xz\<close> is an IntegerLiteral of size 4, signed, with the digits 1, 0, x, z;
  \<^verbatim>\<open>0'd1\<close> adds IntegerSizeZero; \<^verbatim>\<open>4294967296'hF\<close> has the size \<^verbatim>\<open>UINT32_MAX\<close> and adds
  IntegerSizeTooLarge; \<^verbatim>\<open>4'q\<close> adds MissingVectorBase and ends after the apostrophe. The
  payload holds no base: the base shows in the bytes that are taken as digits and in
  their values. \<^verbatim>\<open>4'b12\<close> ends before the 2, \<^verbatim>\<open>3'o78\<close> before the 8, \<^verbatim>\<open>2'D9a\<close> before the
  a, and \<^verbatim>\<open>8'Sha_?F\<close> has the digits 10, z, 15.
\<close>

lemma sized_vector_examples:
  "\<forall>env.
     Lexer_lex env (lexerOn (CHR ''4'' # APOSTROPHE # ''sb10xz'')) =
       Some (Inr (\<lparr>kind = IntegerLiteral,
                   data = NumericLiteralInfo (CHR ''4'' # APOSTROPHE # ''sb10xz'')
                            (VectorValue \<lparr>vecSized = True, vecSize = 4, vecSigned = True,
                                         vecDigits = [Digit 1, Digit 0, logic_x, logic_z]\<rparr>),
                   trivia = []\<rparr>,
                  (lexerOn (CHR ''4'' # APOSTROPHE # ''sb10xz''))
                    \<lparr>sourceBuffer := 8,
                     vectorBuilder := \<lparr>vecSized = True, vecSize = 4, vecSigned = True,
                                         vecDigits = [Digit 1, Digit 0, logic_x, logic_z]\<rparr>\<rparr>))
   \<and> Lexer_lex env (lexerOn (CHR ''0'' # APOSTROPHE # ''d1'')) =
       Some (Inr (\<lparr>kind = IntegerLiteral,
                   data = NumericLiteralInfo (CHR ''0'' # APOSTROPHE # ''d1'')
                            (VectorValue \<lparr>vecSized = True, vecSize = 0, vecSigned = False,
                                         vecDigits = [Digit 1]\<rparr>),
                   trivia = []\<rparr>,
                  (lexerOn (CHR ''0'' # APOSTROPHE # ''d1''))
                    \<lparr>sourceBuffer := 4, diagnostics := [IntegerSizeZero],
                     vectorBuilder := \<lparr>vecSized = True, vecSize = 0, vecSigned = False,
                                         vecDigits = [Digit 1]\<rparr>\<rparr>))
   \<and> Lexer_lex env (lexerOn (''4294967296'' @ APOSTROPHE # ''hF'')) =
       Some (Inr (\<lparr>kind = IntegerLiteral,
                   data = NumericLiteralInfo (''4294967296'' @ APOSTROPHE # ''hF'')
                            (VectorValue \<lparr>vecSized = True, vecSize = 0xFFFFFFFF, vecSigned = False,
                                         vecDigits = [Digit 15]\<rparr>),
                   trivia = []\<rparr>,
                  (lexerOn (''4294967296'' @ APOSTROPHE # ''hF''))
                    \<lparr>sourceBuffer := 13, diagnostics := [IntegerSizeTooLarge],
                     vectorBuilder := \<lparr>vecSized = True, vecSize = 0xFFFFFFFF, vecSigned = False,
                                         vecDigits = [Digit 15]\<rparr>\<rparr>))
   \<and> Lexer_lex env (lexerOn (CHR ''4'' # APOSTROPHE # ''q'')) =
       Some (Inr (\<lparr>kind = IntegerLiteral,
                   data = NumericLiteralInfo (CHR ''4'' # [APOSTROPHE]) (IntValue 0),
                   trivia = []\<rparr>,
                  (lexerOn (CHR ''4'' # APOSTROPHE # ''q''))
                    \<lparr>sourceBuffer := 2, diagnostics := [MissingVectorBase],
                     vectorBuilder := \<lparr>vecSized = True, vecSize = 4, vecSigned = False,
                                       vecDigits = []\<rparr>\<rparr>))
   \<and> Lexer_lex env (lexerOn (CHR ''4'' # APOSTROPHE # ''b12'')) =
       Some (Inr (\<lparr>kind = IntegerLiteral,
                   data = NumericLiteralInfo (CHR ''4'' # APOSTROPHE # ''b1'')
                            (VectorValue \<lparr>vecSized = True, vecSize = 4, vecSigned = False,
                                         vecDigits = [Digit 1]\<rparr>),
                   trivia = []\<rparr>,
                  (lexerOn (CHR ''4'' # APOSTROPHE # ''b12''))
                    \<lparr>sourceBuffer := 4,
                     vectorBuilder := \<lparr>vecSized = True, vecSize = 4, vecSigned = False,
                                         vecDigits = [Digit 1]\<rparr>\<rparr>))
   \<and> Lexer_lex env (lexerOn (CHR ''3'' # APOSTROPHE # ''o78'')) =
       Some (Inr (\<lparr>kind = IntegerLiteral,
                   data = NumericLiteralInfo (CHR ''3'' # APOSTROPHE # ''o7'')
                            (VectorValue \<lparr>vecSized = True, vecSize = 3, vecSigned = False,
                                         vecDigits = [Digit 7]\<rparr>),
                   trivia = []\<rparr>,
                  (lexerOn (CHR ''3'' # APOSTROPHE # ''o78''))
                    \<lparr>sourceBuffer := 4,
                     vectorBuilder := \<lparr>vecSized = True, vecSize = 3, vecSigned = False,
                                         vecDigits = [Digit 7]\<rparr>\<rparr>))
   \<and> Lexer_lex env (lexerOn (CHR ''2'' # APOSTROPHE # ''D9a'')) =
       Some (Inr (\<lparr>kind = IntegerLiteral,
                   data = NumericLiteralInfo (CHR ''2'' # APOSTROPHE # ''D9'')
                            (VectorValue \<lparr>vecSized = True, vecSize = 2, vecSigned = False,
                                         vecDigits = [Digit 9]\<rparr>),
                   trivia = []\<rparr>,
                  (lexerOn (CHR ''2'' # APOSTROPHE # ''D9a''))
                    \<lparr>sourceBuffer := 4,
                     vectorBuilder := \<lparr>vecSized = True, vecSize = 2, vecSigned = False,
                                         vecDigits = [Digit 9]\<rparr>\<rparr>))
   \<and> Lexer_lex env (lexerOn (CHR ''8'' # APOSTROPHE # ''Sha_?F'')) =
       Some (Inr (\<lparr>kind = IntegerLiteral,
                   data = NumericLiteralInfo (CHR ''8'' # APOSTROPHE # ''Sha_?F'')
                            (VectorValue \<lparr>vecSized = True, vecSize = 8, vecSigned = True,
                                         vecDigits = [Digit 10, logic_z, Digit 15]\<rparr>),
                   trivia = []\<rparr>,
                  (lexerOn (CHR ''8'' # APOSTROPHE # ''Sha_?F''))
                    \<lparr>sourceBuffer := 8,
                     vectorBuilder := \<lparr>vecSized = True, vecSize = 8, vecSigned = True,
                                         vecDigits = [Digit 10, logic_z, Digit 15]\<rparr>\<rparr>))"
  by (simp add: lex_eval vector_eval upt_rec)


text \<open>
  C6. The claim fails on the code. The size that reaches \<^verbatim>\<open>lexVectorLiteral\<close> is the value
  accumulated by \<^verbatim>\<open>scanUnsignedNumber\<close>, which counts the zeros that follow an underscore
  as mantissa digits (lines 583-584 skip only the zeros before it) and drops every digit
  after the eighteenth (line 648). In the first input the size 5000000000 is greater than
  \<open>2^32 - 1\<close>, but the vector has size 0 and the diagnostic is IntegerSizeZero, not
  IntegerSizeTooLarge. The second input is the spec's example with its size 4 written
  after a zero, an underscore and eighteen zeros: the token is signed with the digits
  1, 0, x, z, but its size is 0, not 4, and IntegerSizeZero is added. The last three inputs
  give the same size and diagnostic at the binary, octal and decimal bases; each ends
  before a byte that is a digit of a larger base only.
\<close>

theorem sized_vector_size_zeros_after_underscore:
  "\<forall>env.
     Lexer_lex env (lexerOn (''0_0000000000000000005000000000'' @ APOSTROPHE # ''hF'')) =
       Some (Inr (\<lparr>kind = IntegerLiteral,
                   data = NumericLiteralInfo (''0_0000000000000000005000000000'' @ APOSTROPHE # ''hF'')
                            (VectorValue \<lparr>vecSized = True, vecSize = 0, vecSigned = False,
                                         vecDigits = [Digit 15]\<rparr>),
                   trivia = []\<rparr>,
                  (lexerOn (''0_0000000000000000005000000000'' @ APOSTROPHE # ''hF''))
                    \<lparr>sourceBuffer := 33, diagnostics := [IntegerSizeZero],
                     vectorBuilder := \<lparr>vecSized = True, vecSize = 0, vecSigned = False,
                                         vecDigits = [Digit 15]\<rparr>\<rparr>))
   \<and> Lexer_lex env (lexerOn (''0_0000000000000000004'' @ APOSTROPHE # ''sb10xz'')) =
       Some (Inr (\<lparr>kind = IntegerLiteral,
                   data = NumericLiteralInfo (''0_0000000000000000004'' @ APOSTROPHE # ''sb10xz'')
                            (VectorValue \<lparr>vecSized = True, vecSize = 0, vecSigned = True,
                                         vecDigits = [Digit 1, Digit 0, logic_x, logic_z]\<rparr>),
                   trivia = []\<rparr>,
                  (lexerOn (''0_0000000000000000004'' @ APOSTROPHE # ''sb10xz''))
                    \<lparr>sourceBuffer := 28, diagnostics := [IntegerSizeZero],
                     vectorBuilder := \<lparr>vecSized = True, vecSize = 0, vecSigned = True,
                                         vecDigits = [Digit 1, Digit 0, logic_x, logic_z]\<rparr>\<rparr>))
   \<and> Lexer_lex env (lexerOn (''0_0000000000000000004'' @ APOSTROPHE # ''b12'')) =
       Some (Inr (\<lparr>kind = IntegerLiteral,
                   data = NumericLiteralInfo (''0_0000000000000000004'' @ APOSTROPHE # ''b1'')
                            (VectorValue \<lparr>vecSized = True, vecSize = 0, vecSigned = False,
                                         vecDigits = [Digit 1]\<rparr>),
                   trivia = []\<rparr>,
                  (lexerOn (''0_0000000000000000004'' @ APOSTROPHE # ''b12''))
                    \<lparr>sourceBuffer := 24, diagnostics := [IntegerSizeZero],
                     vectorBuilder := \<lparr>vecSized = True, vecSize = 0, vecSigned = False,
                                         vecDigits = [Digit 1]\<rparr>\<rparr>))
   \<and> Lexer_lex env (lexerOn (''0_0000000000000000004'' @ APOSTROPHE # ''o78'')) =
       Some (Inr (\<lparr>kind = IntegerLiteral,
                   data = NumericLiteralInfo (''0_0000000000000000004'' @ APOSTROPHE # ''o7'')
                            (VectorValue \<lparr>vecSized = True, vecSize = 0, vecSigned = False,
                                         vecDigits = [Digit 7]\<rparr>),
                   trivia = []\<rparr>,
                  (lexerOn (''0_0000000000000000004'' @ APOSTROPHE # ''o78''))
                    \<lparr>sourceBuffer := 24, diagnostics := [IntegerSizeZero],
                     vectorBuilder := \<lparr>vecSized = True, vecSize = 0, vecSigned = False,
                                         vecDigits = [Digit 7]\<rparr>\<rparr>))
   \<and> Lexer_lex env (lexerOn (''0_0000000000000000004'' @ APOSTROPHE # ''d9a'')) =
       Some (Inr (\<lparr>kind = IntegerLiteral,
                   data = NumericLiteralInfo (''0_0000000000000000004'' @ APOSTROPHE # ''d9'')
                            (VectorValue \<lparr>vecSized = True, vecSize = 0, vecSigned = False,
                                         vecDigits = [Digit 9]\<rparr>),
                   trivia = []\<rparr>,
                  (lexerOn (''0_0000000000000000004'' @ APOSTROPHE # ''d9a''))
                    \<lparr>sourceBuffer := 24, diagnostics := [IntegerSizeZero],
                     vectorBuilder := \<lparr>vecSized = True, vecSize = 0, vecSigned = False,
                                         vecDigits = [Digit 9]\<rparr>\<rparr>))"
  by (simp add: lex_eval vector_eval upt_rec)


section \<open>Real literals\<close>

text \<open>
  The two inputs of the spec's scenario 3, up to the double arithmetic: \<^verbatim>\<open>1.5e2\<close> is
  composed from the mantissa 15 and the exponent 1, \<^verbatim>\<open>1e500\<close> from the mantissa 1 and the
  exponent 500, and RealExponentTooLarge is added exactly when \<open>composeDouble\<close> reports a
  result that is not finite.
\<close>

lemma real_literal_examples:
  "\<forall>env.
     Lexer_lex env (lexerOn ''1.5e2'') =
       Some (Inr (\<lparr>kind = RealLiteral,
                   data = NumericLiteralInfo ''1.5e2'' (RealValue (snd (composeDouble env 15 1))),
                   trivia = []\<rparr>,
                  if fst (composeDouble env 15 1)
                  then advance (lexerOn ''1.5e2'') 5
                  else addError (advance (lexerOn ''1.5e2'') 5) RealExponentTooLarge))
   \<and> Lexer_lex env (lexerOn ''1e500'') =
       Some (Inr (\<lparr>kind = RealLiteral,
                   data = NumericLiteralInfo ''1e500'' (RealValue (snd (composeDouble env 1 500))),
                   trivia = []\<rparr>,
                  if fst (composeDouble env 1 500)
                  then advance (lexerOn ''1e500'') 5
                  else addError (advance (lexerOn ''1e500'') 5) RealExponentTooLarge))"
proof (intro allI conjI)
  fix env
  show "Lexer_lex env (lexerOn ''1.5e2'') =
       Some (Inr (\<lparr>kind = RealLiteral,
                   data = NumericLiteralInfo ''1.5e2'' (RealValue (snd (composeDouble env 15 1))),
                   trivia = []\<rparr>,
                  if fst (composeDouble env 15 1)
                  then advance (lexerOn ''1.5e2'') 5
                  else addError (advance (lexerOn ''1.5e2'') 5) RealExponentTooLarge))"
    by (cases "composeDouble env 15 1")
       (simp add: lex_eval lexRealLiteral_def int32_def upt_rec)
  show "Lexer_lex env (lexerOn ''1e500'') =
       Some (Inr (\<lparr>kind = RealLiteral,
                   data = NumericLiteralInfo ''1e500'' (RealValue (snd (composeDouble env 1 500))),
                   trivia = []\<rparr>,
                  if fst (composeDouble env 1 500)
                  then advance (lexerOn ''1e500'') 5
                  else addError (advance (lexerOn ''1e500'') 5) RealExponentTooLarge))"
    by (cases "composeDouble env 1 500")
       (simp add: lex_eval lexRealLiteral_def int32_def upt_rec)
qed


text \<open>
  C5. The claim fails on the code. The exponent 4294967296 of the input is scanned into
  the 64-bit \<open>expVal\<close>, and \<^verbatim>\<open>int(expVal)\<close> (line 694) keeps its low 32 bits, which are 0:
  the double is composed from the mantissa 1 and the exponent 0, not from an exponent
  clamped to 511.
\<close>

theorem real_exponent_truncated:
  "\<forall>env.
     Lexer_lex env (lexerOn ''1e4294967296'') =
       Some (Inr (\<lparr>kind = RealLiteral,
                   data = NumericLiteralInfo ''1e4294967296''
                            (RealValue (snd (composeDouble env 1 0))),
                   trivia = []\<rparr>,
                  if fst (composeDouble env 1 0)
                  then advance (lexerOn ''1e4294967296'') 12
                  else addError (advance (lexerOn ''1e4294967296'') 12) RealExponentTooLarge))"
proof
  fix env
  show "Lexer_lex env (lexerOn ''1e4294967296'') =
       Some (Inr (\<lparr>kind = RealLiteral,
                   data = NumericLiteralInfo ''1e4294967296''
                            (RealValue (snd (composeDouble env 1 0))),
                   trivia = []\<rparr>,
                  if fst (composeDouble env 1 0)
                  then advance (lexerOn ''1e4294967296'') 12
                  else addError (advance (lexerOn ''1e4294967296'') 12) RealExponentTooLarge))"
    by (cases "composeDouble env 1 0")
       (simp add: lex_eval lexRealLiteral_def int32_def upt_rec)
qed


end
